theory Spec2Isabelle
  imports Main "HOL-Library.Signed_Division"
begin

section \<open>The registry application object (registry/handlers/app.go)\<close>

text \<open>
  A shallow embedding of \<^verbatim>\<open>registry/handlers/app.go\<close>: the construction of the
  application (\<^verbatim>\<open>NewApp\<close>) and the request path (\<^verbatim>\<open>ServeHTTP\<close>, \<^verbatim>\<open>dispatcher\<close>,
  \<^verbatim>\<open>authorized\<close>). Go panics are values of a sum type, the response writer and the
  request context are passed explicitly, and every call that leaves the file (standard
  library, router, storage, access controller, route handlers) is a field of a record that
  the caller supplies. The log lines of the request path and the metrics wrapper that
  \<^verbatim>\<open>register\<close> may put around a handler write nothing to the response and are left out.
\<close>

subsection \<open>Access records\<close>

text \<open>\<^verbatim>\<open>auth.Resource\<close> and \<^verbatim>\<open>auth.Access\<close>, with the fields the file sets.\<close>

record resource =
  Type :: string
  Name :: string

record access =
  Resource :: resource
  Action :: string

text \<open>The method names of \<^verbatim>\<open>net/http\<close>. Go compares them as byte strings.\<close>

definition MethodGet :: string where "MethodGet = ''GET''"
definition MethodHead :: string where "MethodHead = ''HEAD''"
definition MethodPost :: string where "MethodPost = ''POST''"
definition MethodPut :: string where "MethodPut = ''PUT''"
definition MethodPatch :: string where "MethodPatch = ''PATCH''"
definition MethodDelete :: string where "MethodDelete = ''DELETE''"

text \<open>
  \<^verbatim>\<open>appendAccessRecords\<close>: the \<^verbatim>\<open>switch\<close> on the method, first matching case wins, no
  default case.
\<close>

definition appendAccessRecords :: "access list \<Rightarrow> string \<Rightarrow> string \<Rightarrow> access list" where
  "appendAccessRecords records method repo =
     (let resource = \<lparr>Type = ''repository'', Name = repo\<rparr> in
      if method = MethodGet \<or> method = MethodHead then
        records @ [\<lparr>Resource = resource, Action = ''pull''\<rparr>]
      else if method = MethodPost \<or> method = MethodPut \<or> method = MethodPatch then
        records @ [\<lparr>Resource = resource, Action = ''pull''\<rparr>,
                   \<lparr>Resource = resource, Action = ''push''\<rparr>]
      else if method = MethodDelete then
        records @ [\<lparr>Resource = resource, Action = ''delete''\<rparr>]
      else records)"

subsection \<open>Configuration values\<close>

text \<open>
  The untyped values of the configuration tree (\<^verbatim>\<open>interface{}\<close>): a type assertion
  \<^verbatim>\<open>v.(bool)\<close> succeeds exactly on \<open>DBool\<close>, \<^verbatim>\<open>v.(string)\<close> on \<open>DString\<close>,
  \<^verbatim>\<open>v.(int)\<close> on \<open>DInt\<close>, \<^verbatim>\<open>v.(map[interface{}]interface{})\<close> on \<open>DMap\<close>. The file
  looks maps up with string keys only, so maps are association lists keyed by strings
  (\<open>map_of\<close> is the lookup, \<open>None\<close> the missing key).
\<close>

datatype dyn = DNil | DBool bool | DInt int | DString string | DMap "(string \<times> dyn) list"

type_synonym Parameters = "(string \<times> dyn) list"

text \<open>
  \<^verbatim>\<open>configuration.Configuration\<close>, the fields that \<^verbatim>\<open>app.go\<close> reads or writes, with the
  path of each field in its name. \<open>Auth_Type\<close> is what \<^verbatim>\<open>config.Auth.Type()\<close> returns.
\<close>

record Configuration =
  HTTP_Secret :: string
  HTTP_Host :: string
  HTTP_Headers :: "(string \<times> string list) list"
  Storage :: "(string \<times> Parameters) list"
  Middleware :: "(string \<times> string list) list"
  Proxy_RemoteURL :: string
  Validation_Enabled :: bool
  Validation_Disabled :: bool
  Validation_Manifests_URLs_Allow :: "string list"
  Validation_Manifests_URLs_Deny :: "string list"
  Validation_Manifests_Indexes_Platforms :: string
  Validation_Manifests_Indexes_PlatformList :: "(string \<times> string) list"
  Redis_Options_Addrs :: "string list"
  Redis_TLS_Certificate :: string
  Redis_TLS_Key :: string
  Redis_TLS_ClientCAs :: "string list"
  Auth_Type :: string

text \<open>\<^verbatim>\<open>config.Middleware[key]\<close>: the nil slice when the key is missing.\<close>

definition middlewares :: "Configuration \<Rightarrow> string \<Rightarrow> string list" where
  "middlewares config key = (case map_of (Middleware config) key of None \<Rightarrow> [] | Some ms \<Rightarrow> ms)"

subsection \<open>Storage options, drivers, registries\<close>

text \<open>
  The values of \<^verbatim>\<open>storage.RegistryOption\<close> that the file appends, a regular expression
  being kept as its pattern. \<open>MiddlewareOption\<close> stands for an option registered by a
  registry middleware (\<^verbatim>\<open>registrymiddleware.GetRegistryOptions\<close>).
\<close>

datatype RegistryOption =
    DisableDigestResumption
  | EnableDelete
  | EnableRedirect
  | TagLookupConcurrencyLimit int
  | ManifestURLsAllowRegexp string
  | ManifestURLsDenyRegexp string
  | EnableValidateImageIndexImagesExist
  | AddValidateImageIndexImagesExistPlatform string string
  | BlobDescriptorCacheProvider string
  | MiddlewareOption string

text \<open>
  Storage drivers, registries and repositories, as the terms that build them: what
  \<^verbatim>\<open>factory.Create\<close> and \<^verbatim>\<open>storage.NewRegistry\<close> return, wrapped by the middlewares,
  by the pull-through cache and by the notification listener. A Go interface value is nil
  or one of these: \<open>None\<close> is nil.
\<close>

datatype StorageDriver = Driver string | StorageMiddleware string "StorageDriver option"

datatype Namespace =
    Registry "StorageDriver option" "RegistryOption list"
  | RegistryMiddleware string "Namespace option"
  | PullThroughCache "Namespace option"

datatype repository =
  Repository string | Listen repository | RepositoryMiddleware string repository

subsection \<open>Responses\<close>

text \<open>
  \<^verbatim>\<open>http.Header\<close> maps a header name (in canonical form) to its values.
  \<^verbatim>\<open>Add\<close> appends a value, \<^verbatim>\<open>Set\<close> replaces them.
\<close>

type_synonym header = "string \<Rightarrow> string list"

definition Header_Add :: "header \<Rightarrow> string \<Rightarrow> string \<Rightarrow> header" where
  "Header_Add h k v = h(k := h k @ [v])"

definition Header_Set :: "header \<Rightarrow> string \<Rightarrow> string \<Rightarrow> header" where
  "Header_Set h k v = h(k := [v])"

datatype ErrorCode =
  ErrorCodeUnknown | ErrorCodeUnauthorized | ErrorCodeNameUnknown | ErrorCodeNameInvalid

datatype detail = DetailRecords "access list" | DetailName string | DetailMessage string

text \<open>
  Go errors: an \<^verbatim>\<open>errcode.ErrorCode\<close> and the \<^verbatim>\<open>errcode.Error\<close> that \<^verbatim>\<open>WithDetail\<close>
  builds from one (both are \<^verbatim>\<open>errcode.ErrorCoder\<close>s), the two error types of the
  registry that the dispatcher tells apart, and \<open>OtherError\<close> for any other error.
\<close>

datatype go_error =
    errcode_ErrorCode ErrorCode
  | errcode_Error ErrorCode detail
  | ErrRepositoryUnknown string
  | ErrRepositoryNameInvalid string string
  | OtherError string

datatype chunk = Text string | JSON "go_error list"

text \<open>
  \<^verbatim>\<open>http.ResponseWriter\<close>: \<open>Header\<close> is the header map the handler edits; the first
  \<^verbatim>\<open>WriteHeader\<close> fixes the status and sends the headers as they are then (\<open>wrote\<close>),
  later calls change nothing; \<^verbatim>\<open>Write\<close> sends status 200 first when nothing was sent.
\<close>

record ResponseWriter =
  Header :: header
  wrote :: "(nat \<times> header) option"
  body :: "chunk list"

definition WriteHeader :: "ResponseWriter \<Rightarrow> nat \<Rightarrow> ResponseWriter" where
  "WriteHeader w code =
     (case wrote w of None \<Rightarrow> w\<lparr>wrote := Some (code, Header w)\<rparr> | Some _ \<Rightarrow> w)"

definition Write :: "ResponseWriter \<Rightarrow> chunk \<Rightarrow> ResponseWriter" where
  "Write w b = (let w' = WriteHeader w 200 in w'\<lparr>body := body w' @ [b]\<rparr>)"

text \<open>
  What the client receives once the handler has returned: the status and headers of the
  first \<^verbatim>\<open>WriteHeader\<close>, or 200 with the final header map when the handler wrote nothing.
\<close>

definition sent :: "ResponseWriter \<Rightarrow> nat \<times> header" where
  "sent w = (case wrote w of Some p \<Rightarrow> p | None \<Rightarrow> (200, Header w))"

definition http_Error :: "ResponseWriter \<Rightarrow> string \<Rightarrow> nat \<Rightarrow> ResponseWriter" where
  "http_Error w msg code =
     (let h = Header_Set (Header_Set (Header w) ''Content-Type'' ''text/plain; charset=utf-8'')
                ''X-Content-Type-Options'' ''nosniff''
      in Write (WriteHeader (w\<lparr>Header := h\<rparr>) code) (Text (msg @ [CHR 0x0A])))"

text \<open>
  Modelled from the spec: the status of an error code (the descriptors of
  \<^verbatim>\<open>registry/api/errcode\<close> are not in \<^verbatim>\<open>app.go\<close>): a challenge is answered with 401, a
  missing entity with 404, malformed input with 400, an unrecognised error with 500.
\<close>

fun HTTPStatusCode :: "ErrorCode \<Rightarrow> nat" where
  "HTTPStatusCode ErrorCodeUnauthorized = 401"
| "HTTPStatusCode ErrorCodeNameUnknown = 404"
| "HTTPStatusCode ErrorCodeNameInvalid = 400"
| "HTTPStatusCode ErrorCodeUnknown = 500"

text \<open>
  Modelled from the spec: \<^verbatim>\<open>errcode.ServeJSON\<close> (not in \<^verbatim>\<open>app.go\<close>) maps the errors
  to an HTTP status, that of the first error when it carries a code and 500 otherwise, and
  writes them in the JSON error envelope.
\<close>

definition ServeJSON :: "ResponseWriter \<Rightarrow> go_error list \<Rightarrow> ResponseWriter" where
  "ServeJSON w errs =
     (let sc = (case errs of
                 errcode_ErrorCode c # rest \<Rightarrow> HTTPStatusCode c
               | errcode_Error c d # rest \<Rightarrow> HTTPStatusCode c
               | _ \<Rightarrow> 500)
      in Write (WriteHeader w sc) (JSON errs))"

subsection \<open>Requests, the access controller, the application\<close>

text \<open>
  The routes of the v2 router (\<^verbatim>\<open>v2.RouteNameBase\<close>, ...): seven distinct names, whose
  spelling is declared outside \<^verbatim>\<open>app.go\<close>.
\<close>

datatype route_name =
    RouteNameBase | RouteNameManifest | RouteNameCatalog | RouteNameTags
  | RouteNameBlob | RouteNameBlobUpload | RouteNameBlobUploadChunk

text \<open>What the router does with a request that matches no route.\<close>

datatype unmatched = PathRedirect string | MethodMismatch | NotFound

text \<open>
  A request as the file reads it: the method, the route the router matched
  (\<^verbatim>\<open>mux.CurrentRoute(r)\<close>, \<open>None\<close> for nil), the route variable \<^verbatim>\<open>name\<close>
  (\<^verbatim>\<open>getName(context)\<close>) and the form values (\<^verbatim>\<open>r.FormValue\<close>, the empty string for a
  missing key).
\<close>

record request =
  Method :: string
  CurrentRoute :: "route_name option"
  no_route :: unmatched
  vars_name :: string
  FormValue :: "string \<Rightarrow> string"

definition getName :: "request \<Rightarrow> string" where
  "getName r = vars_name r"

record Grant =
  User :: string
  Resources :: "resource list"

text \<open>
  What \<^verbatim>\<open>AccessController.Authorized\<close> returns: a grant with a nil error, a nil grant
  with a nil error, an \<^verbatim>\<open>auth.Challenge\<close> error (kept as the value of the
  \<^verbatim>\<open>WWW-Authenticate\<close> header it stands for), or any other error.
\<close>

datatype auth_result = Granted Grant | NilGrant | Challenge string | ControllerError string

type_synonym AccessController = "request \<Rightarrow> access list \<Rightarrow> auth_result"

text \<open>
  Modelled from the spec: \<^verbatim>\<open>Challenge.SetHeaders\<close> (implemented by the access
  controllers, not in \<^verbatim>\<open>app.go\<close>): the challenge describes the \<^verbatim>\<open>WWW-Authenticate\<close>
  header to emit.
\<close>

definition SetHeaders :: "string \<Rightarrow> ResponseWriter \<Rightarrow> ResponseWriter" where
  "SetHeaders challenge w = w\<lparr>Header := Header_Set (Header w) ''WWW-Authenticate'' challenge\<rparr>"

text \<open>The goroutine that \<^verbatim>\<open>startUploadPurger\<close> starts, with the values it closes over.\<close>


record uploadPurger =
  storageDriver :: "StorageDriver option"
  purgeAgeDuration :: int
  intervalDuration :: int
  dryRunBool :: bool

datatype level = Debug | Info | Warn

text \<open>
  \<^verbatim>\<open>App\<close>. \<open>uploadPurging\<close> (the goroutine started at construction, if any) and
  \<open>logged\<close> (the lines written to the application's logger during construction, oldest
  first) are not fields of the Go struct: they record effects of \<^verbatim>\<open>NewApp\<close>.
\<close>

record App =
  Config :: Configuration
  driver :: "StorageDriver option"
  registry :: "Namespace option"
  repoRemover :: bool
  accessController :: "AccessController option"
  httpHost :: "string \<times> string"
  redis :: "string list option"
  isCache :: bool
  readOnly :: bool
  uploadPurging :: "uploadPurger option"
  logged :: "(level \<times> string) list"

text \<open>
  The calls a request makes out of the file, in order: the access controller with the
  access records it is given, the registry asked for a repository, the route's handler.
\<close>

datatype event = Authorized_call "access list" | Repository_call string | Handler_call

text \<open>
  The state of one request: the response writer, the fields of \<^verbatim>\<open>handlers.Context\<close>
  that the file writes (\<open>Errors\<close>, the grant stored by \<^verbatim>\<open>withUser\<close> and
  \<^verbatim>\<open>withResources\<close>, the repository), the calls made so far, and whether the goroutine
  is panicking.
\<close>

record exchange =
  w :: ResponseWriter
  Errors :: "go_error list"
  grant :: "Grant option"
  Repository_of :: "repository option"
  trace :: "event list"
  panicking :: bool

type_synonym handler = "ResponseWriter \<Rightarrow> ResponseWriter \<times> go_error list"

type_synonym dispatchFunc = "exchange \<Rightarrow> request \<Rightarrow> handler"

text \<open>
  What a request calls outside the file: \<^verbatim>\<open>reference.WithName\<close> (the error text, or
  \<open>None\<close>), \<^verbatim>\<open>app.registry.Repository\<close>, \<^verbatim>\<open>repositorymiddleware.Get\<close> (its error, or
  \<open>None\<close>), and the dispatchers of the routes other than the base route. A handler is given the response
  writer and returns it with the errors it appended to \<^verbatim>\<open>context.Errors\<close>.
\<close>

record collaborators =
  reference_WithName :: "string \<Rightarrow> string option"
  registry_Repository :: "Namespace option \<Rightarrow> string \<Rightarrow> go_error + repository"
  repositorymiddleware_Get :: "string \<Rightarrow> repository \<Rightarrow> string option"
  manifestDispatcher :: dispatchFunc
  catalogDispatcher :: dispatchFunc
  tagsDispatcher :: dispatchFunc
  blobDispatcher :: dispatchFunc
  blobUploadDispatcher :: dispatchFunc

subsection \<open>Authorization\<close>

definition nameRequired :: "request \<Rightarrow> bool" where
  "nameRequired r =
     (case CurrentRoute r of
        None \<Rightarrow> True
      | Some routeName \<Rightarrow> routeName \<noteq> RouteNameBase \<and> routeName \<noteq> RouteNameCatalog)"

text \<open>
  \<^verbatim>\<open>appendCatalogAccessRecord\<close> calls \<^verbatim>\<open>GetName\<close> on the current route without a nil
  check: \<open>None\<close> is the nil dereference.
\<close>

definition appendCatalogAccessRecord :: "access list \<Rightarrow> request \<Rightarrow> access list option" where
  "appendCatalogAccessRecord accessRecords r =
     (case CurrentRoute r of
        None \<Rightarrow> None
      | Some routeName \<Rightarrow>
          if routeName = RouteNameCatalog then
            Some (accessRecords @
              [\<lparr>Resource = \<lparr>Type = ''registry'', Name = ''catalog''\<rparr>, Action = ''*''\<rparr>])
          else Some accessRecords)"

text \<open>
  \<^verbatim>\<open>App.authorized\<close> returns nil (\<open>Proceed\<close>) or an error (\<open>Refused\<close>), or panics.
\<close>

datatype authorization = Proceed | Refused string | Panicked

definition authorized :: "App \<Rightarrow> request \<Rightarrow> exchange \<Rightarrow> authorization \<times> exchange" where
  "authorized app r x =
     (let repo = getName r in
      case accessController app of
        None \<Rightarrow> (Proceed, x)
      | Some ac \<Rightarrow>
          (case (if repo \<noteq> [] then
                   (let accessRecords = appendAccessRecords [] (Method r) repo;
                        fromRepo = FormValue r ''from''
                    in if fromRepo \<noteq> [] then
                         Inr (appendAccessRecords accessRecords MethodGet fromRepo)
                       else Inr accessRecords)
                 else if nameRequired r then
                   Inl (Refused ''forbidden: no repository name'',
                        x\<lparr>w := ServeJSON (w x) [errcode_ErrorCode ErrorCodeUnauthorized]\<rparr>)
                 else
                   (case appendCatalogAccessRecord [] r of
                      None \<Rightarrow> Inl (Panicked, x\<lparr>panicking := True\<rparr>)
                    | Some accessRecords \<Rightarrow> Inr accessRecords)) of
             Inl returned \<Rightarrow> returned
           | Inr accessRecords \<Rightarrow>
               (let x1 = x\<lparr>trace := trace x @ [Authorized_call accessRecords]\<rparr> in
                case ac r accessRecords of
                  Challenge challenge \<Rightarrow>
                    (Refused ''challenge'',
                     x1\<lparr>w := ServeJSON (SetHeaders challenge (w x1))
                                [errcode_Error ErrorCodeUnauthorized (DetailRecords accessRecords)]\<rparr>)
                | ControllerError err \<Rightarrow>
                    (Refused err, x1\<lparr>w := WriteHeader (w x1) 400\<rparr>)
                | NilGrant \<Rightarrow>
                    (Refused ''access controller returned neither an access grant nor an error'',
                     x1)
                | Granted g \<Rightarrow> (Proceed, x1\<lparr>grant := Some g\<rparr>))))"

subsection \<open>Dispatch\<close>

text \<open>\<^verbatim>\<open>applyRepoMiddleware\<close>: the loop over the configured middlewares, first error returned.\<close>

fun applyRepoMiddleware ::
  "collaborators \<Rightarrow> repository \<Rightarrow> string list \<Rightarrow> string + repository" where
  "applyRepoMiddleware env repository [] = Inr repository"
| "applyRepoMiddleware env repository (mw # mws) =
     (case repositorymiddleware_Get env mw repository of
        Some err \<Rightarrow> Inl err
      | None \<Rightarrow> applyRepoMiddleware env (RepositoryMiddleware mw repository) mws)"

text \<open>\<^verbatim>\<open>apiBase\<close>: \<^verbatim>\<open>fmt.Sprint(len("{}"))\<close> is \<^verbatim>\<open>"2"\<close>.\<close>

definition apiBase :: handler where
  "apiBase rw =
     (let h = Header_Set (Header_Set (Header rw) ''Content-Type'' ''application/json'')
                ''Content-Length'' ''2''
      in (Write (rw\<lparr>Header := h\<rparr>) (Text ''{}''), []))"

text \<open>
  The deferred function of the dispatcher: the errors the handlers left in the context are
  served when there are any.
\<close>

definition deferred :: "exchange \<Rightarrow> exchange" where
  "deferred x = (if Errors x \<noteq> [] then x\<lparr>w := ServeJSON (w x) (Errors x)\<rparr> else x)"

text \<open>Append an error to \<^verbatim>\<open>context.Errors\<close> and serve the errors, as the dispatcher does
  before each of its early returns.\<close>

definition fail :: "exchange \<Rightarrow> go_error list \<Rightarrow> exchange" where
  "fail x errs =
     (let x' = x\<lparr>Errors := Errors x @ errs\<rparr> in x'\<lparr>w := ServeJSON (w x') (Errors x')\<rparr>)"

text \<open>
  The handler that \<^verbatim>\<open>App.dispatcher\<close> returns. The configured headers are added in
  the order of the list (Go iterates the map in no fixed order; \<^verbatim>\<open>Add\<close> on different
  names commutes). The body runs up to a \<^verbatim>\<open>return\<close> or its end, then the deferred
  function runs.
\<close>

definition dispatcher ::
  "App \<Rightarrow> collaborators \<Rightarrow> dispatchFunc \<Rightarrow> request \<Rightarrow> ResponseWriter \<Rightarrow> exchange" where
  "dispatcher app env dispatch r rw =
     (let rw1 = fold (\<lambda>(headerName, headerValues) rw'.
                   fold (\<lambda>value rw''. rw''\<lparr>Header := Header_Add (Header rw'') headerName value\<rparr>)
                     headerValues rw')
                 (HTTP_Headers (Config app)) rw;
          context = \<lparr>w = rw1, Errors = [], grant = None, Repository_of = None, trace = [],
                     panicking = False\<rparr>
      in deferred
        (case authorized app r context of
           (Refused err, x) \<Rightarrow> x
         | (Panicked, x) \<Rightarrow> x
         | (Proceed, x) \<Rightarrow>
             (case (if nameRequired r then
                      (case reference_WithName env (getName r) of
                         Some reason \<Rightarrow>
                           Inl (fail x [ErrRepositoryNameInvalid (getName r) reason])
                       | None \<Rightarrow>
                           (let x1 = x\<lparr>trace := trace x @ [Repository_call (getName r)]\<rparr> in
                            case registry_Repository env (registry app) (getName r) of
                              Inl err \<Rightarrow>
                                Inl (fail x1
                                  (case err of
                                     ErrRepositoryUnknown n \<Rightarrow>
                                       [errcode_Error ErrorCodeNameUnknown (DetailName n)]
                                   | ErrRepositoryNameInvalid n reason \<Rightarrow>
                                       [errcode_Error ErrorCodeNameInvalid (DetailName n)]
                                   | errcode_Error c d \<Rightarrow> [errcode_Error c d]
                                   | _ \<Rightarrow> []))
                            | Inr repository \<Rightarrow>
                                (case applyRepoMiddleware env (Listen repository)
                                        (middlewares (Config app) ''repository'') of
                                   Inl err \<Rightarrow>
                                     Inl (fail x1 [errcode_Error ErrorCodeUnknown (DetailMessage err)])
                                 | Inr repository' \<Rightarrow>
                                     Inr (x1\<lparr>Repository_of := Some repository'\<rparr>))))
                    else Inr x) of
                Inl returned \<Rightarrow> returned
              | Inr x2 \<Rightarrow>
                  (let (rw', errs) = dispatch x2 r (w x2)
                   in x2\<lparr>w := rw', Errors := Errors x2 @ errs,
                          trace := trace x2 @ [Handler_call]\<rparr>))))"

text \<open>The dispatchers that \<^verbatim>\<open>NewApp\<close> registers, by route name.\<close>

definition registered :: "collaborators \<Rightarrow> route_name \<Rightarrow> dispatchFunc" where
  "registered env routeName =
     (case routeName of
        RouteNameBase \<Rightarrow> (\<lambda>ctx r. apiBase)
      | RouteNameManifest \<Rightarrow> manifestDispatcher env
      | RouteNameCatalog \<Rightarrow> catalogDispatcher env
      | RouteNameTags \<Rightarrow> tagsDispatcher env
      | RouteNameBlob \<Rightarrow> blobDispatcher env
      | RouteNameBlobUpload \<Rightarrow> blobUploadDispatcher env
      | RouteNameBlobUploadChunk \<Rightarrow> blobUploadDispatcher env)"

text \<open>
  \<^verbatim>\<open>app.router.ServeHTTP\<close> (gorilla/mux): the handler registered for the matched route,
  otherwise a redirect to the cleaned path, 405, or 404.
\<close>

definition router_ServeHTTP ::
  "App \<Rightarrow> collaborators \<Rightarrow> request \<Rightarrow> ResponseWriter \<Rightarrow> exchange" where
  "router_ServeHTTP app env r rw =
     (case CurrentRoute r of
        Some routeName \<Rightarrow> dispatcher app env (registered env routeName) r rw
      | None \<Rightarrow>
          \<lparr>w = (case no_route r of
                  PathRedirect url \<Rightarrow>
                    WriteHeader (rw\<lparr>Header := Header_Set (Header rw) ''Location'' url\<rparr>) 301
                | MethodMismatch \<Rightarrow> WriteHeader rw 405
                | NotFound \<Rightarrow> http_Error rw ''404 page not found'' 404),
            Errors = [], grant = None, Repository_of = None, trace = [], panicking = False\<rparr>)"

text \<open>\<^verbatim>\<open>App.ServeHTTP\<close>.\<close>

definition ServeHTTP :: "App \<Rightarrow> collaborators \<Rightarrow> request \<Rightarrow> ResponseWriter \<Rightarrow> exchange" where
  "ServeHTTP app env r rw =
     router_ServeHTTP app env r
       (rw\<lparr>Header := Header_Add (Header rw) ''Docker-Distribution-API-Version'' ''registry/2.0''\<rparr>)"

subsection \<open>Construction: what \<^verbatim>\<open>NewApp\<close> calls outside the file\<close>

datatype panic = Panic string

text \<open>
  The outcome of each call that \<^verbatim>\<open>NewApp\<close> and its helpers make outside the file. An
  error is its text (\<open>Inl\<close>, or \<open>Some\<close> where the model builds the value returned on
  success).
  \<open>factory_Create\<close> stands for \<^verbatim>\<open>config.Storage.Type()\<close>, the storage parameters with
  the user agent filled in, and \<^verbatim>\<open>factory.Create\<close>. \<open>rand_Read\<close> is \<^verbatim>\<open>crypto/rand.Read\<close>
  asked for a number of bytes, \<open>rand_Int\<close> is \<^verbatim>\<open>rand.Int(rand.Reader, max)\<close>.
  \<open>sizeOf\<close> is \<^verbatim>\<open>strconv.Atoi(fmt.Sprint(v))\<close>.
\<close>

record environment =
  factory_Create :: "Configuration \<Rightarrow> string + StorageDriver"
  storagemiddleware_Get :: "string \<Rightarrow> StorageDriver option \<Rightarrow> string option"
  rand_Read :: "nat \<Rightarrow> string + string"
  rand_Int :: "int \<Rightarrow> string + int"
  ParseDuration :: "string \<Rightarrow> string + int"
  LoadX509KeyPair :: "string \<Rightarrow> string \<Rightarrow> string option"
  loadClientCA :: "string \<Rightarrow> bool"
  url_Parse :: "string \<Rightarrow> string + string \<times> string"
  regexp_Compile :: "string \<Rightarrow> string option"
  GetRegistryOptions :: "RegistryOption list"
  sizeOf :: "dyn \<Rightarrow> string + int"
  NewRegistry :: "StorageDriver option \<Rightarrow> RegistryOption list \<Rightarrow> string option"
  registrymiddleware_Get :: "string \<Rightarrow> Namespace option \<Rightarrow> string option"
  GetAccessController :: "string \<Rightarrow> string + AccessController"
  NewRegistryPullThroughCache :: "Namespace option \<Rightarrow> string option"
  isRepositoryRemover :: "Namespace option \<Rightarrow> bool"

text \<open>Sequencing of steps that may panic: the first panic ends the construction.\<close>

definition andThen :: "panic + 'a \<Rightarrow> ('a \<Rightarrow> panic + 'b) \<Rightarrow> panic + 'b" where
  "andThen m f = (case m of Inl p \<Rightarrow> Inl p | Inr a \<Rightarrow> f a)"

definition logf :: "level \<Rightarrow> string \<Rightarrow> App \<Rightarrow> App" where
  "logf lvl msg app = app\<lparr>logged := logged app @ [(lvl, msg)]\<rparr>"

subsection \<open>The upload purger\<close>

definition uploadPurgeDefaultConfig :: Parameters where
  "uploadPurgeDefaultConfig =
     [(''enabled'', DBool True), (''age'', DString ''168h''), (''interval'', DString ''24h''),
      (''dryrun'', DBool False)]"

definition badPurgeUploadConfig :: "string \<Rightarrow> panic" where
  "badPurgeUploadConfig reason = Panic (''Unable to parse upload purge configuration: '' @ reason)"

text \<open>
  \<^verbatim>\<open>startUploadPurger\<close>: \<open>Inr None\<close> when it returns without starting the goroutine,
  \<open>Inr (Some p)\<close> when it starts it. \<^verbatim>\<open>config["enabled"] == false\<close> holds only for
  the boolean false.
\<close>

definition startUploadPurger ::
  "environment \<Rightarrow> StorageDriver option \<Rightarrow> Parameters \<Rightarrow> panic + uploadPurger option" where
  "startUploadPurger env drv config =
     (if map_of config ''enabled'' = Some (DBool False) then Inr None
      else
        andThen
          (case map_of config ''age'' of
             Some (DString ageStr) \<Rightarrow>
               (case ParseDuration env ageStr of
                  Inl err \<Rightarrow> Inl (badPurgeUploadConfig (''Cannot parse duration: '' @ err))
                | Inr d \<Rightarrow> Inr d)
           | Some other \<Rightarrow> Inl (badPurgeUploadConfig ''age is not a string'')
           | None \<Rightarrow> Inl (badPurgeUploadConfig ''age missing''))
          (\<lambda>purgeAge.
        andThen
          (case map_of config ''interval'' of
             Some (DString intervalStr) \<Rightarrow>
               (case ParseDuration env intervalStr of
                  Inl err \<Rightarrow> Inl (badPurgeUploadConfig (''Cannot parse interval: '' @ err))
                | Inr d \<Rightarrow> Inr d)
           | Some other \<Rightarrow> Inl (badPurgeUploadConfig ''interval is not a string'')
           | None \<Rightarrow> Inl (badPurgeUploadConfig ''interval missing''))
          (\<lambda>interval.
        andThen
          (case map_of config ''dryrun'' of
             Some (DBool b) \<Rightarrow> Inr b
           | Some other \<Rightarrow> Inl (badPurgeUploadConfig ''cannot parse dryrun'')
           | None \<Rightarrow> Inl (badPurgeUploadConfig ''dryrun missing''))
          (\<lambda>dryRun.
        Inr (Some \<lparr>storageDriver = drv, purgeAgeDuration = purgeAge,
                   intervalDuration = interval, dryRunBool = dryRun\<rparr>)))))"

text \<open>
  The goroutine of \<^verbatim>\<open>startUploadPurger\<close>. \<^verbatim>\<open>int64\<close> arithmetic wraps (\<open>int64\<close>);
  \<^verbatim>\<open>%\<close> truncates towards zero (\<open>smod\<close>); a \<^verbatim>\<open>time.Duration\<close> counts nanoseconds.
\<close>

definition int64 :: "int \<Rightarrow> int" where
  "int64 x = (x + 2 ^ 63) mod 2 ^ 64 - 2 ^ 63"

definition MaxInt64 :: int where
  "MaxInt64 = 2 ^ 63 - 1"

definition Minute :: int where
  "Minute = 60 * 1000000000"

definition jitter :: "environment \<Rightarrow> int" where
  "jitter env =
     (let randInt = (case rand_Int env MaxInt64 of Inl err \<Rightarrow> 30 | Inr n \<Rightarrow> n)
      in int64 ((int64 randInt smod 60) * Minute))"

text \<open>
  What the goroutine does, in order: \<^verbatim>\<open>time.Sleep\<close> with a duration, and
  \<^verbatim>\<open>storage.PurgeUploads\<close> with the age that is subtracted from the time of the call and
  with \<^verbatim>\<open>actuallyDelete\<close>. The loop has no exit: \<open>purger_run env p n\<close> is the run up
  to the end of the \<open>n\<close>-th round.
\<close>

datatype purger_action = Sleep int | PurgeUploads int bool

fun purger_run :: "environment \<Rightarrow> uploadPurger \<Rightarrow> nat \<Rightarrow> purger_action list" where
  "purger_run env p 0 = [Sleep (jitter env)]"
| "purger_run env p (Suc n) =
     purger_run env p n @
       [PurgeUploads (purgeAgeDuration p) (\<not> dryRunBool p), Sleep (intervalDuration p)]"

subsection \<open>Helpers of the construction\<close>

text \<open>\<^verbatim>\<open>applyStorageMiddleware\<close> and \<^verbatim>\<open>applyRegistryMiddleware\<close>: the loops, with the
  error each wraps.\<close>

fun applyStorageMiddleware ::
  "environment \<Rightarrow> StorageDriver option \<Rightarrow> string list \<Rightarrow> string + StorageDriver option" where
  "applyStorageMiddleware env drv [] = Inr drv"
| "applyStorageMiddleware env drv (mw # mws) =
     (case storagemiddleware_Get env mw drv of
        Some err \<Rightarrow> Inl (''unable to configure storage middleware ('' @ mw @ ''): '' @ err)
      | None \<Rightarrow> applyStorageMiddleware env (Some (StorageMiddleware mw drv)) mws)"

fun applyRegistryMiddleware ::
  "environment \<Rightarrow> Namespace option \<Rightarrow> string list \<Rightarrow> string + Namespace option" where
  "applyRegistryMiddleware env reg [] = Inr reg"
| "applyRegistryMiddleware env reg (mw # mws) =
     (case registrymiddleware_Get env mw reg of
        Some err \<Rightarrow> Inl (''unable to configure registry middleware ('' @ mw @ ''): '' @ err)
      | None \<Rightarrow> applyRegistryMiddleware env (Some (RegistryMiddleware mw reg)) mws)"

definition randomSecretSize :: nat where
  "randomSecretSize = 32"

text \<open>
  \<^verbatim>\<open>rand.Read(secretBytes[:])\<close> writes into an array of \<open>randomSecretSize\<close> zero bytes;
  the bytes read overwrite it from the front and the array keeps its length.
\<close>

definition readInto :: "string \<Rightarrow> string \<Rightarrow> string" where
  "readInto buf bytes = take (length buf) (bytes @ drop (length bytes) buf)"

definition secretWarning :: string where
  "secretWarning =
     ''No HTTP secret provided - generated random secret. This may cause '' @
     ''problems with uploads if multiple registries are behind a '' @
     ''load-balancer. To provide a shared secret, fill in http.secret in the '' @
     ''configuration file or set the REGISTRY_HTTP_SECRET environment variable.''"

definition configureSecret :: "environment \<Rightarrow> App \<Rightarrow> panic + App" where
  "configureSecret env app =
     (if HTTP_Secret (Config app) = [] then
        (let secretBytes = replicate randomSecretSize (CHR 0x00) in
         case rand_Read env (length secretBytes) of
           Inl err \<Rightarrow> Inl (Panic (''could not generate random bytes for HTTP secret: '' @ err))
         | Inr bytes \<Rightarrow>
             Inr (logf Warn secretWarning
                   (app\<lparr>Config := (Config app)\<lparr>HTTP_Secret := readInto secretBytes bytes\<rparr>\<rparr>)))
      else Inr app)"

text \<open>
  \<^verbatim>\<open>configureRedis\<close>: \<^verbatim>\<open>app.redis\<close> stays nil when no address is configured and when
  a client CA cannot be loaded (the method returns early); a key pair that cannot be loaded
  is a panic.
\<close>

definition configureRedis :: "environment \<Rightarrow> App \<Rightarrow> panic + App" where
  "configureRedis env app =
     (let cfg = Config app in
      if Redis_Options_Addrs cfg = [] then Inr (logf Info ''redis not configured'' app)
      else if Redis_TLS_Certificate cfg \<noteq> [] \<or> Redis_TLS_Key cfg \<noteq> [] then
        (case LoadX509KeyPair env (Redis_TLS_Certificate cfg) (Redis_TLS_Key cfg) of
           Some err \<Rightarrow> Inl (Panic err)
         | None \<Rightarrow>
             if Redis_TLS_ClientCAs cfg \<noteq> []
                \<and> \<not> list_all (loadClientCA env) (Redis_TLS_ClientCAs cfg) then Inr app
             else Inr (app\<lparr>redis := Some (Redis_Options_Addrs cfg)\<rparr>))
      else Inr (app\<lparr>redis := Some (Redis_Options_Addrs cfg)\<rparr>))"

text \<open>\<^verbatim>\<open>strings.Join\<close>.\<close>

fun Join :: "string list \<Rightarrow> string \<Rightarrow> string" where
  "Join [] sep = []"
| "Join [e] sep = e"
| "Join (e # es) sep = e @ sep @ Join es sep"

text \<open>
  The loops over the allow and the deny list: each pattern is compiled, the first that does
  not compile is a panic, and each is wrapped in a non-capturing group in place.
\<close>

fun wrapPatterns :: "environment \<Rightarrow> string list \<Rightarrow> string + string list" where
  "wrapPatterns env [] = Inr []"
| "wrapPatterns env (s # ss) =
     (case regexp_Compile env s of
        Some err \<Rightarrow> Inl err
      | None \<Rightarrow>
          (case wrapPatterns env ss of
             Inl err \<Rightarrow> Inl err
           | Inr ws \<Rightarrow> Inr ((''(?:'' @ s @ '')'') # ws)))"

text \<open>\<^verbatim>\<open>regexp.MustCompile\<close> of a pattern built at run time.\<close>

definition MustCompile :: "environment \<Rightarrow> string \<Rightarrow> panic + string" where
  "MustCompile env pattern =
     (case regexp_Compile env pattern of Some err \<Rightarrow> Inl (Panic err) | None \<Rightarrow> Inr pattern)"

text \<open>\<^verbatim>\<open>strings.EqualFold(authType, "none")\<close>: equality up to the case of the letters.\<close>

definition lower :: "char \<Rightarrow> char" where
  "lower c =
     (let n = (of_char c :: nat) in if 65 \<le> n \<and> n \<le> 90 then char_of (n + 32) else c)"

definition EqualFold_none :: "string \<Rightarrow> bool" where
  "EqualFold_none s = (map lower s = ''none'')"

subsection \<open>\<^verbatim>\<open>NewApp\<close>\<close>

text \<open>
  The blocks of \<^verbatim>\<open>NewApp\<close>, in the order of the source, each under the comment or the
  call that opens it there. \<^verbatim>\<open>configureEvents\<close> and \<^verbatim>\<open>configureLogHook\<close> set the
  event sink and the hooks of the logger only and are left out, as is the text of the log
  lines that carry no data of a later block.
\<close>

text \<open>The \<^verbatim>\<open>maintenance\<close> section: the purge configuration and the read-only flag.\<close>

definition NewApp_maintenance :: "App \<Rightarrow> panic + Parameters \<times> App" where
  "NewApp_maintenance app =
     (case map_of (Storage (Config app)) ''maintenance'' of
        None \<Rightarrow> Inr (uploadPurgeDefaultConfig, app)
      | Some mc \<Rightarrow>
          andThen
            (case map_of mc ''uploadpurging'' of
               None \<Rightarrow> Inr uploadPurgeDefaultConfig
             | Some (DMap m) \<Rightarrow> Inr m
             | Some other \<Rightarrow> Inl (Panic ''uploadpurging config key must contain additional keys''))
            (\<lambda>purgeConfig.
               case map_of mc ''readonly'' of
                 None \<Rightarrow> Inr (purgeConfig, app)
               | Some (DMap readOnly') \<Rightarrow>
                   (case map_of readOnly' ''enabled'' of
                      None \<Rightarrow> Inr (purgeConfig, app)
                    | Some (DBool b) \<Rightarrow> Inr (purgeConfig, app\<lparr>readOnly := b\<rparr>)
                    | Some other \<Rightarrow>
                        Inl (Panic ''readonly's enabled config key must have a boolean value''))
               | Some other \<Rightarrow> Inl (Panic ''readonly config key must contain additional keys'')))"

text \<open>\<^verbatim>\<open>// configure deletion\<close>\<close>

definition NewApp_deletion :: "Configuration \<Rightarrow> RegistryOption list \<Rightarrow> RegistryOption list" where
  "NewApp_deletion config options =
     (case map_of (Storage config) ''delete'' of
        None \<Rightarrow> options
      | Some d \<Rightarrow>
          (case map_of d ''enabled'' of
             Some (DBool True) \<Rightarrow> options @ [EnableDelete]
           | _ \<Rightarrow> options))"

text \<open>\<^verbatim>\<open>// configure tag lookup concurrency limit\<close> (\<^verbatim>\<open>TagParameters\<close> is the \<^verbatim>\<open>tag\<close>
  section, nil when missing)\<close>

definition NewApp_tag ::
  "Configuration \<Rightarrow> RegistryOption list \<Rightarrow> panic + RegistryOption list" where
  "NewApp_tag config options =
     (case map_of (Storage config) ''tag'' of
        None \<Rightarrow> Inr options
      | Some p' \<Rightarrow>
          (case map_of p' ''concurrencylimit'' of
             None \<Rightarrow> Inr options
           | Some (DInt limit) \<Rightarrow>
               if limit < 0 then
                 Inl (Panic
                   ''tag lookup concurrency limit should be a non-negative integer value'')
               else Inr (options @ [TagLookupConcurrencyLimit limit])
           | Some other \<Rightarrow>
               Inl (Panic ''tag lookup concurrency limit config key must have a integer value'')))"

text \<open>\<^verbatim>\<open>// configure redirects\<close>: a \<^verbatim>\<open>redirect\<close> section whose \<^verbatim>\<open>disable\<close> is not a
  boolean (or is missing) is a panic.\<close>

definition NewApp_redirect ::
  "App \<Rightarrow> RegistryOption list \<Rightarrow> panic + App \<times> RegistryOption list" where
  "NewApp_redirect app options =
     andThen
       (case map_of (Storage (Config app)) ''redirect'' of
          None \<Rightarrow> Inr False
        | Some redirectConfig \<Rightarrow>
            (case map_of redirectConfig ''disable'' of
               Some (DBool v) \<Rightarrow> Inr v
             | _ \<Rightarrow> Inl (Panic ''invalid type for redirect config'')))
       (\<lambda>redirectDisabled.
          if redirectDisabled then Inr (logf Info ''backend redirection disabled'' app, options)
          else Inr (app, options @ [EnableRedirect]))"

text \<open>The default of \<^verbatim>\<open>validation.enabled\<close> and \<^verbatim>\<open>// configure validation\<close>.\<close>

definition NewApp_validation ::
  "environment \<Rightarrow> App \<Rightarrow> RegistryOption list \<Rightarrow> panic + App \<times> RegistryOption list" where
  "NewApp_validation env app options =
     (let config = Config app;
          config = (if \<not> Validation_Enabled config
                    then config\<lparr>Validation_Enabled := \<not> Validation_Disabled config\<rparr>
                    else config)
      in
      if Validation_Enabled config then
        andThen
          (if length (Validation_Manifests_URLs_Allow config) = 0
              \<and> length (Validation_Manifests_URLs_Deny config) = 0 then
             Inr (config, options @ [ManifestURLsAllowRegexp ''^$''])
           else
             andThen
               (if length (Validation_Manifests_URLs_Allow config) > 0 then
                  (case wrapPatterns env (Validation_Manifests_URLs_Allow config) of
                     Inl err \<Rightarrow> Inl (Panic (''validation.manifests.urls.allow: '' @ err))
                   | Inr allow \<Rightarrow>
                       andThen (MustCompile env (Join allow ''|''))
                         (\<lambda>re. Inr (config\<lparr>Validation_Manifests_URLs_Allow := allow\<rparr>,
                                     options @ [ManifestURLsAllowRegexp re])))
                else Inr (config, options))
               (\<lambda>(config, options).
                  if length (Validation_Manifests_URLs_Deny config) > 0 then
                    (case wrapPatterns env (Validation_Manifests_URLs_Deny config) of
                       Inl err \<Rightarrow> Inl (Panic (''validation.manifests.urls.deny: '' @ err))
                     | Inr deny \<Rightarrow>
                         andThen (MustCompile env (Join deny ''|''))
                           (\<lambda>re. Inr (config\<lparr>Validation_Manifests_URLs_Deny := deny\<rparr>,
                                       options @ [ManifestURLsDenyRegexp re])))
                  else Inr (config, options)))
          (\<lambda>(config, options).
             let platforms = Validation_Manifests_Indexes_Platforms config;
                 warning = ''Image index completeness validation has been disabled, which is '' @
                   ''an experimental option because other container tooling might expect '' @
                   ''all image indexes to be complete''
             in
             if platforms = ''list'' then
               Inr (logf Warn warning (app\<lparr>Config := config\<rparr>),
                    options @ [EnableValidateImageIndexImagesExist] @
                      map (\<lambda>(architecture, os).
                             AddValidateImageIndexImagesExistPlatform architecture os)
                        (Validation_Manifests_Indexes_PlatformList config))
             else if platforms = ''none'' then
               Inr (logf Warn warning (app\<lparr>Config := config\<rparr>), options)
             else
               Inr (app\<lparr>Config := config\<rparr>, options @ [EnableValidateImageIndexImagesExist]))
      else Inr (app\<lparr>Config := config\<rparr>, options))"

text \<open>\<^verbatim>\<open>// configure storage caches\<close>: a \<^verbatim>\<open>switch\<close> on an untyped value matches a
  string case only when the value is that string.\<close>

definition NewApp_cache :: "environment \<Rightarrow> App \<Rightarrow> RegistryOption list \<Rightarrow> panic + App" where
  "NewApp_cache env app options =
     (case map_of (Storage (Config app)) ''cache'' of
        None \<Rightarrow> Inr app
      | Some cc \<Rightarrow>
          (let v = (case map_of cc ''blobdescriptor'' of
                      Some v' \<Rightarrow> v'
                    | None \<Rightarrow> (case map_of cc ''layerinfo'' of Some v' \<Rightarrow> v' | None \<Rightarrow> DNil))
           in
           if v = DString ''redis'' then
             (if redis app = None then
                Inl (Panic ''redis configuration required to use for layerinfo cache'')
              else
                (let app1 = (if map_of cc ''blobdescriptorsize'' \<noteq> None
                             then logf Warn
                               ''blobdescriptorsize parameter is not supported with redis cache''
                               app
                             else app);
                     localOptions = options @ [BlobDescriptorCacheProvider ''redis'']
                 in case NewRegistry env (driver app1) localOptions of
                      Some err \<Rightarrow> Inl (Panic (''could not create registry: '' @ err))
                    | None \<Rightarrow>
                        Inr (logf Info ''using redis blob descriptor cache''
                              (app1\<lparr>registry := Some (Registry (driver app1) localOptions)\<rparr>))))
           else if v = DString ''inmemory'' then
             andThen
               (case map_of cc ''blobdescriptorsize'' of
                  None \<Rightarrow> Inr ()
                | Some configuredSize \<Rightarrow>
                    (case sizeOf env configuredSize of
                       Inl err \<Rightarrow> Inl (Panic (''invalid blobdescriptorsize value: '' @ err))
                     | Inr n \<Rightarrow> Inr ()))
               (\<lambda>u.
                  let localOptions = options @ [BlobDescriptorCacheProvider ''inmemory'']
                  in case NewRegistry env (driver app) localOptions of
                       Some err \<Rightarrow> Inl (Panic (''could not create registry: '' @ err))
                     | None \<Rightarrow>
                         Inr (logf Info ''using inmemory blob descriptor cache''
                               (app\<lparr>registry := Some (Registry (driver app) localOptions)\<rparr>)))
           else if v \<noteq> DString [] then
             Inr (logf Warn ''unknown cache type, caching disabled'' app)
           else Inr app))"

text \<open>\<^verbatim>\<open>NewApp\<close>: the application, or the panic that ends the construction.\<close>

definition NewApp :: "environment \<Rightarrow> Configuration \<Rightarrow> panic + App" where
  "NewApp env config =
     (let app = \<lparr>Config = config, driver = None, registry = None, repoRemover = False,
                 accessController = None, httpHost = ([], []), redis = None,
                 isCache = (Proxy_RemoteURL config \<noteq> []), readOnly = False,
                 uploadPurging = None, logged = []\<rparr>
      in
      andThen (case factory_Create env config of
                 Inl err \<Rightarrow> Inl (Panic err)
               | Inr d \<Rightarrow> Inr (app\<lparr>driver := Some d\<rparr>)) (\<lambda>app.
      andThen (NewApp_maintenance app) (\<lambda>(purgeConfig, app).
      andThen (startUploadPurger env (driver app) purgeConfig) (\<lambda>purger.
      andThen (case applyStorageMiddleware env (driver app)
                      (middlewares (Config app) ''storage'') of
                 Inl err \<Rightarrow> Inl (Panic err)
               | Inr d \<Rightarrow> Inr (app\<lparr>uploadPurging := purger, driver := d\<rparr>)) (\<lambda>app.
      andThen (if \<not> isCache app then configureSecret env app else Inr app) (\<lambda>app.
      andThen (configureRedis env app) (\<lambda>app.
      andThen (if HTTP_Host (Config app) \<noteq> [] then
                 (case url_Parse env (HTTP_Host (Config app)) of
                    Inl err \<Rightarrow> Inl (Panic (''could not parse http host parameter: '' @ err))
                  | Inr u \<Rightarrow> Inr (app\<lparr>httpHost := u\<rparr>))
               else Inr app) (\<lambda>app.
      andThen (NewApp_tag (Config app)
                 (NewApp_deletion (Config app)
                    (if isCache app then GetRegistryOptions env @ [DisableDigestResumption]
                     else GetRegistryOptions env))) (\<lambda>options.
      andThen (NewApp_redirect app options) (\<lambda>(app, options).
      andThen (NewApp_validation env app options) (\<lambda>(app, options).
      andThen (NewApp_cache env app options) (\<lambda>app.
      andThen (if registry app = None then
                 (case NewRegistry env (driver app) options of
                    Some err \<Rightarrow> Inl (Panic (''could not create registry: '' @ err))
                  | None \<Rightarrow> Inr (app\<lparr>registry := Some (Registry (driver app) options)\<rparr>))
               else Inr app) (\<lambda>app.
      andThen (case applyRegistryMiddleware env (registry app)
                      (middlewares (Config app) ''registry'') of
                 Inl err \<Rightarrow> Inl (Panic err)
               | Inr reg \<Rightarrow> Inr (app\<lparr>registry := reg\<rparr>)) (\<lambda>app.
      andThen (let authType = Auth_Type (Config app) in
               if authType \<noteq> [] \<and> \<not> EqualFold_none authType then
                 (case GetAccessController env authType of
                    Inl err \<Rightarrow> Inl (Panic (''unable to configure authorization: '' @ err))
                  | Inr ac \<Rightarrow>
                      Inr (logf Debug ''configured access controller''
                            (app\<lparr>accessController := Some ac\<rparr>)))
               else Inr app) (\<lambda>app.
      andThen (if Proxy_RemoteURL (Config app) \<noteq> [] then
                 (case NewRegistryPullThroughCache env (registry app) of
                    Some err \<Rightarrow> Inl (Panic err)
                  | None \<Rightarrow>
                      Inr (logf Info ''Registry configured as a proxy cache''
                            (app\<lparr>registry := Some (PullThroughCache (registry app)),
                                  isCache := True\<rparr>)))
               else Inr app) (\<lambda>app.
      (let ok = isRepositoryRemover env (registry app);
           app = app\<lparr>repoRemover := ok\<rparr>
       in Inr (if \<not> ok then
                 logf Warn (''Registry does not implement RepositoryRemover. Will not be '' @
                            ''able to delete repos and tags'') app
               else app))))))))))))))))))"

text \<open>
  The options the storage registry underneath an application's registry was created with
  (\<open>None\<close> where there is no such registry).
\<close>

fun registryOptions :: "Namespace \<Rightarrow> RegistryOption list option" where
  "registryOptions (Registry drv options) = Some options"
| "registryOptions (RegistryMiddleware mw None) = None"
| "registryOptions (RegistryMiddleware mw (Some reg)) = registryOptions reg"
| "registryOptions (PullThroughCache None) = None"
| "registryOptions (PullThroughCache (Some reg)) = registryOptions reg"

subsection \<open>The manifest URL policy\<close>

text \<open>
  \<^verbatim>\<open>Regexp.MatchString\<close> of Go's \<^verbatim>\<open>regexp\<close>, computed for the patterns that are made
  of \<^verbatim>\<open>^\<close> (the beginning of the text), \<^verbatim>\<open>$\<close> (the end of the text) and literal
  characters: the pattern matches when it matches at some position of the text. The
  result for any other pattern is the library's (\<open>lib\<close>).
\<close>

datatype re_item = BeginText | EndText | Literal char

definition metachar :: "char \<Rightarrow> bool" where
  "metachar c =
     (c \<in> set [CHR 0x5C, CHR ''.'', CHR ''+'', CHR ''*'', CHR ''?'', CHR ''('', CHR '')'',
                CHR ''|'', CHR ''['', CHR '']'', CHR ''{'', CHR ''}'', CHR ''^'', CHR ''$''])"

fun parse_items :: "string \<Rightarrow> re_item list option" where
  "parse_items [] = Some []"
| "parse_items (c # cs) =
     (case parse_items cs of
        None \<Rightarrow> None
      | Some items \<Rightarrow>
          if c = CHR ''^'' then Some (BeginText # items)
          else if c = CHR ''$'' then Some (EndText # items)
          else if metachar c then None
          else Some (Literal c # items))"

fun match_at :: "re_item list \<Rightarrow> string \<Rightarrow> nat \<Rightarrow> bool" where
  "match_at [] s i = True"
| "match_at (BeginText # items) s i = (i = 0 \<and> match_at items s i)"
| "match_at (EndText # items) s i = (i = length s \<and> match_at items s i)"
| "match_at (Literal c # items) s i = (i < length s \<and> s ! i = c \<and> match_at items s (Suc i))"

definition MatchString :: "(string \<Rightarrow> string \<Rightarrow> bool) \<Rightarrow> string \<Rightarrow> string \<Rightarrow> bool" where
  "MatchString lib pattern s =
     (case parse_items pattern of
        Some items \<Rightarrow> list_ex (match_at items s) [0..<Suc (length s)]
      | None \<Rightarrow> lib pattern s)"

text \<open>
  Modelled from the spec: the URL policy of the registry (\<^verbatim>\<open>registry/storage\<close>, not in
  \<^verbatim>\<open>app.go\<close>). The registry owns the allow and the deny policy, which the options
  \<^verbatim>\<open>ManifestURLsAllowRegexp\<close> and \<^verbatim>\<open>ManifestURLsDenyRegexp\<close> set, applied in order.
\<close>

record manifestURLs =
  allow :: "string option"
  deny :: "string option"

text \<open>
  Modelled from the spec: what an option does to the policy when the registry is created
  (\<^verbatim>\<open>registry/storage\<close>): the two URL options set the allow and the deny pattern, the
  others leave the policy alone.
\<close>

fun applyOption :: "RegistryOption \<Rightarrow> manifestURLs \<Rightarrow> manifestURLs" where
  "applyOption (ManifestURLsAllowRegexp re) p = p\<lparr>allow := Some re\<rparr>"
| "applyOption (ManifestURLsDenyRegexp re) p = p\<lparr>deny := Some re\<rparr>"
| "applyOption other p = p"

text \<open>
  Modelled from the spec: the policy of a registry created with a list of options, which
  starts with neither pattern set.
\<close>

definition manifestURLsOf :: "RegistryOption list \<Rightarrow> manifestURLs" where
  "manifestURLsOf options = fold applyOption options \<lparr>allow = None, deny = None\<rparr>"

text \<open>
  Modelled from the spec: the check of a manifest's URLs on ingest (the manifest store,
  not in \<^verbatim>\<open>app.go\<close>): allow is matched first, and if it is set and does not match, the
  manifest is rejected; deny is then checked and a match rejects.
\<close>

definition urlRejected :: "(string \<Rightarrow> string \<Rightarrow> bool) \<Rightarrow> manifestURLs \<Rightarrow> string \<Rightarrow> bool" where
  "urlRejected lib policy u =
     (case allow policy of
        Some re \<Rightarrow>
          if \<not> MatchString lib re u then True
          else (case deny policy of Some re' \<Rightarrow> MatchString lib re' u | None \<Rightarrow> False)
      | None \<Rightarrow> (case deny policy of Some re' \<Rightarrow> MatchString lib re' u | None \<Rightarrow> False))"

text \<open>
  Modelled from the spec: a manifest is rejected when one of its URLs is.
\<close>

definition manifestRejected ::
  "(string \<Rightarrow> string \<Rightarrow> bool) \<Rightarrow> manifestURLs \<Rightarrow> string list \<Rightarrow> bool" where
  "manifestRejected lib policy urls = list_ex (urlRejected lib policy) urls"

subsection \<open>The API version header\<close>

text \<open>
  A header map carries the API version when \<^verbatim>\<open>registry/2.0\<close> is among the values of
  \<^verbatim>\<open>Docker-Distribution-API-Version\<close>. A response writer keeps it when its header
  map carries it and the headers already sent, if any, carry it. A handler keeps it when
  it hands back such a writer whenever it is given one.
\<close>

definition carries_version :: "header \<Rightarrow> bool" where
  "carries_version h = (''registry/2.0'' \<in> set (h ''Docker-Distribution-API-Version''))"

definition version_kept :: "ResponseWriter \<Rightarrow> bool" where
  "version_kept rw =
     (carries_version (Header rw) \<and>
      (case wrote rw of None \<Rightarrow> True | Some (code, h) \<Rightarrow> carries_version h))"

definition keeps_version :: "handler \<Rightarrow> bool" where
  "keeps_version h = (\<forall>rw. version_kept rw \<longrightarrow> version_kept (fst (h rw)))"

definition handlers_keep_version :: "collaborators \<Rightarrow> bool" where
  "handlers_keep_version env =
     (\<forall>ctx r. keeps_version (manifestDispatcher env ctx r) \<and>
             keeps_version (catalogDispatcher env ctx r) \<and>
             keeps_version (tagsDispatcher env ctx r) \<and>
             keeps_version (blobDispatcher env ctx r) \<and>
             keeps_version (blobUploadDispatcher env ctx r))"

subsection \<open>Example inputs\<close>

text \<open>A configuration without a secret, a proxy or validation settings, and its proxy variant.\<close>

definition example_config :: Configuration where
  "example_config =
     \<lparr>HTTP_Secret = [], HTTP_Host = [],
      HTTP_Headers = [(''X-Content-Type-Options'', [''nosniff''])],
      Storage = [(''filesystem'', [(''rootdirectory'', DString ''/var/lib/registry'')])],
      Middleware = [(''registry'', [''audit''])],
      Proxy_RemoteURL = [],
      Validation_Enabled = False, Validation_Disabled = False,
      Validation_Manifests_URLs_Allow = [], Validation_Manifests_URLs_Deny = [],
      Validation_Manifests_Indexes_Platforms = [],
      Validation_Manifests_Indexes_PlatformList = [],
      Redis_Options_Addrs = [], Redis_TLS_Certificate = [], Redis_TLS_Key = [],
      Redis_TLS_ClientCAs = [],
      Auth_Type = ''token''\<rparr>"

definition proxy_config :: Configuration where
  "proxy_config = example_config\<lparr>Proxy_RemoteURL := ''https://registry-1.docker.io''\<rparr>"

text \<open>
  An access controller that grants a request whose form carries the right token,
  challenges one without a token and fails on any other.
\<close>

definition example_controller :: AccessController where
  "example_controller r records =
     (if FormValue r ''token'' = ''s3cret'' then
        Granted \<lparr>User = ''alice'', Resources = map Resource records\<rparr>
      else if FormValue r ''token'' = [] then Challenge ''Bearer realm=auth.example.com''
      else ControllerError ''malformed token'')"

text \<open>An environment in which every call succeeds.\<close>

definition example_env :: environment where
  "example_env =
     \<lparr>factory_Create = (\<lambda>config. Inr (Driver ''filesystem'')),
      storagemiddleware_Get = (\<lambda>mw drv. None),
      rand_Read = (\<lambda>n. Inr (replicate n (CHR ''k''))),
      rand_Int = (\<lambda>m. Inr 1234567),
      ParseDuration = (\<lambda>s. if s = ''168h'' then Inr (168 * 60 * Minute)
                           else if s = ''24h'' then Inr (24 * 60 * Minute)
                           else Inl ''invalid duration''),
      LoadX509KeyPair = (\<lambda>certificate key. None),
      loadClientCA = (\<lambda>ca. True),
      url_Parse = (\<lambda>s. Inr (''https'', s)),
      regexp_Compile = (\<lambda>pattern. None),
      GetRegistryOptions = [],
      sizeOf = (\<lambda>v. case v of DInt n \<Rightarrow> Inr n | _ \<Rightarrow> Inl ''invalid syntax''),
      NewRegistry = (\<lambda>drv options. None),
      registrymiddleware_Get = (\<lambda>mw reg. None),
      GetAccessController = (\<lambda>authType. Inr example_controller),
      NewRegistryPullThroughCache = (\<lambda>reg. None),
      isRepositoryRemover = (\<lambda>reg. True)\<rparr>"

text \<open>An application with the access controller configured, and handlers that answer 200.\<close>

definition example_app :: App where
  "example_app =
     \<lparr>Config = example_config, driver = Some (Driver ''filesystem''),
      registry = Some (Registry (Some (Driver ''filesystem'')) [EnableRedirect]),
      repoRemover = True, accessController = Some example_controller,
      httpHost = ([], []), redis = None, isCache = False, readOnly = False,
      uploadPurging = None, logged = []\<rparr>"

definition ok_dispatcher :: dispatchFunc where
  "ok_dispatcher ctx r rw = (Write rw (Text ''ok''), [])"

definition example_collaborators :: collaborators where
  "example_collaborators =
     \<lparr>reference_WithName = (\<lambda>name. None),
      registry_Repository = (\<lambda>reg name. Inr (Repository name)),
      repositorymiddleware_Get = (\<lambda>mw repo. None),
      manifestDispatcher = ok_dispatcher, catalogDispatcher = ok_dispatcher,
      tagsDispatcher = ok_dispatcher, blobDispatcher = ok_dispatcher,
      blobUploadDispatcher = ok_dispatcher\<rparr>"

definition fresh :: ResponseWriter where
  "fresh = \<lparr>Header = (\<lambda>k. []), wrote = None, body = []\<rparr>"

text \<open>A cross-repository mount, without and with a malformed token; a request for the
  tags of no repository; a request to the base route.\<close>

definition mount_request :: request where
  "mount_request =
     \<lparr>Method = ''POST'', CurrentRoute = Some RouteNameBlobUpload, no_route = NotFound,
      vars_name = ''bob/app'',
      FormValue = (\<lambda>k. if k = ''from'' then ''alice/app'' else [])\<rparr>"

definition bad_token_request :: request where
  "bad_token_request =
     \<lparr>Method = ''GET'', CurrentRoute = Some RouteNameTags, no_route = NotFound,
      vars_name = ''bob/app'',
      FormValue = (\<lambda>k. if k = ''token'' then ''garbage'' else [])\<rparr>"

definition nameless_request :: request where
  "nameless_request =
     \<lparr>Method = ''GET'', CurrentRoute = Some RouteNameTags, no_route = NotFound,
      vars_name = [], FormValue = (\<lambda>k. [])\<rparr>"

definition base_request :: request where
  "base_request =
     \<lparr>Method = ''GET'', CurrentRoute = Some RouteNameBase, no_route = NotFound,
      vars_name = [], FormValue = (\<lambda>k. if k = ''token'' then ''s3cret'' else [])\<rparr>"

text \<open>What \<^verbatim>\<open>NewApp\<close> builds from the two configurations in that environment.\<close>

definition example_purger :: uploadPurger where
  "example_purger =
     \<lparr>storageDriver = Some (Driver ''filesystem''), purgeAgeDuration = 168 * 60 * Minute,
      intervalDuration = 24 * 60 * Minute, dryRunBool = False\<rparr>"

definition example_built :: App where
  "example_built =
     \<lparr>Config = example_config\<lparr>HTTP_Secret := replicate 32 (CHR ''k''),
                                  Validation_Enabled := True\<rparr>,
      driver = Some (Driver ''filesystem''),
      registry = Some (RegistryMiddleware ''audit''
        (Some (Registry (Some (Driver ''filesystem''))
           [EnableRedirect, ManifestURLsAllowRegexp ''^$'',
            EnableValidateImageIndexImagesExist]))),
      repoRemover = True, accessController = Some example_controller,
      httpHost = ([], []), redis = None, isCache = False, readOnly = False,
      uploadPurging = Some example_purger,
      logged = [(Warn, secretWarning), (Info, ''redis not configured''),
                (Debug, ''configured access controller'')]\<rparr>"

definition proxy_built :: App where
  "proxy_built =
     \<lparr>Config = proxy_config\<lparr>Validation_Enabled := True\<rparr>,
      driver = Some (Driver ''filesystem''),
      registry = Some (PullThroughCache (Some (RegistryMiddleware ''audit''
        (Some (Registry (Some (Driver ''filesystem''))
           [DisableDigestResumption, EnableRedirect, ManifestURLsAllowRegexp ''^$'',
            EnableValidateImageIndexImagesExist]))))),
      repoRemover = True, accessController = Some example_controller,
      httpHost = ([], []), redis = None, isCache = True, readOnly = False,
      uploadPurging = Some example_purger,
      logged = [(Info, ''redis not configured''), (Debug, ''configured access controller''),
                (Info, ''Registry configured as a proxy cache'')]\<rparr>"

text \<open>A configuration whose \<^verbatim>\<open>uploadpurging\<close> section disables the purger.\<close>

definition purging_off_config :: Configuration where
  "purging_off_config =
     example_config\<lparr>Storage :=
       [(''filesystem'', [(''rootdirectory'', DString ''/var/lib/registry'')]),
        (''maintenance'', [(''uploadpurging'', DMap [(''enabled'', DBool False)])])]\<rparr>"

definition purging_off_built :: App where
  "purging_off_built =
     example_built\<lparr>Config := purging_off_config\<lparr>HTTP_Secret := replicate 32 (CHR ''k''),
                                                      Validation_Enabled := True\<rparr>,
                    uploadPurging := None\<rparr>"

section \<open>Properties\<close>

subsection \<open>Evaluation of the examples\<close>

lemmas example_defs =
  example_app_def example_config_def example_collaborators_def example_controller_def
  ok_dispatcher_def fresh_def mount_request_def bad_token_request_def nameless_request_def
  base_request_def

lemmas request_path_defs =
  ServeHTTP_def router_ServeHTTP_def dispatcher_def registered_def authorized_def deferred_def
  fail_def nameRequired_def getName_def appendCatalogAccessRecord_def appendAccessRecords_def
  MethodGet_def MethodHead_def MethodPost_def MethodPut_def MethodPatch_def MethodDelete_def
  ServeJSON_def SetHeaders_def WriteHeader_def Write_def Header_Add_def Header_Set_def sent_def
  middlewares_def apiBase_def

lemma mount_trace:
  "trace (ServeHTTP example_app example_collaborators mount_request fresh) =
     [Authorized_call
       [\<lparr>Resource = \<lparr>Type = ''repository'', Name = ''bob/app''\<rparr>, Action = ''pull''\<rparr>,
        \<lparr>Resource = \<lparr>Type = ''repository'', Name = ''bob/app''\<rparr>, Action = ''push''\<rparr>,
        \<lparr>Resource = \<lparr>Type = ''repository'', Name = ''alice/app''\<rparr>, Action = ''pull''\<rparr>]]"
  by (simp add: example_defs request_path_defs Let_def)

lemma bad_token_trace:
  "trace (ServeHTTP example_app example_collaborators bad_token_request fresh) =
     [Authorized_call
       [\<lparr>Resource = \<lparr>Type = ''repository'', Name = ''bob/app''\<rparr>, Action = ''pull''\<rparr>]]"
  by (simp add: example_defs request_path_defs Let_def)

subsection \<open>Access records\<close>

lemma appendAccessRecords_Get:
  "appendAccessRecords records MethodGet repo =
     records @ [\<lparr>Resource = \<lparr>Type = ''repository'', Name = repo\<rparr>, Action = ''pull''\<rparr>]"
  by (simp add: appendAccessRecords_def)

lemma authorized_plain:
  assumes "accessController app = Some ac" and "getName r \<noteq> []" and "FormValue r ''from'' = []"
  shows "trace (snd (authorized app r x)) =
           trace x @ [Authorized_call (appendAccessRecords [] (Method r) (getName r))]"
  using assms by (simp add: authorized_def Let_def split: auth_result.splits)

text \<open>
  C1. The access records assembled for a repository name are determined by the HTTP
  method alone: GET and HEAD add exactly the pull record on the repository, POST, PUT and
  PATCH exactly the pull and the push record, DELETE exactly the delete record, and any
  other method adds no record. For a request that names a repository and no source
  repository, these are the records the access controller is asked about.
\<close>

theorem appendAccessRecords_by_method:
  "(method \<in> {''GET'', ''HEAD''} \<longrightarrow>
      appendAccessRecords records method repo =
        records @ [\<lparr>Resource = \<lparr>Type = ''repository'', Name = repo\<rparr>, Action = ''pull''\<rparr>]) \<and>
   (method \<in> {''POST'', ''PUT'', ''PATCH''} \<longrightarrow>
      appendAccessRecords records method repo =
        records @ [\<lparr>Resource = \<lparr>Type = ''repository'', Name = repo\<rparr>, Action = ''pull''\<rparr>,
                   \<lparr>Resource = \<lparr>Type = ''repository'', Name = repo\<rparr>, Action = ''push''\<rparr>]) \<and>
   (method = ''DELETE'' \<longrightarrow>
      appendAccessRecords records method repo =
        records @ [\<lparr>Resource = \<lparr>Type = ''repository'', Name = repo\<rparr>, Action = ''delete''\<rparr>]) \<and>
   (method \<notin> {''GET'', ''HEAD'', ''POST'', ''PUT'', ''PATCH'', ''DELETE''} \<longrightarrow>
      appendAccessRecords records method repo = records) \<and>
   (accessController app = Some ac \<and> getName r \<noteq> [] \<and> FormValue r ''from'' = [] \<longrightarrow>
      trace (snd (authorized app r x)) =
        trace x @ [Authorized_call (appendAccessRecords [] (Method r) (getName r))])"
proof -
  have "appendAccessRecords records method repo =
          records @
          (if method \<in> {''GET'', ''HEAD''} then
             [\<lparr>Resource = \<lparr>Type = ''repository'', Name = repo\<rparr>, Action = ''pull''\<rparr>]
           else if method \<in> {''POST'', ''PUT'', ''PATCH''} then
             [\<lparr>Resource = \<lparr>Type = ''repository'', Name = repo\<rparr>, Action = ''pull''\<rparr>,
              \<lparr>Resource = \<lparr>Type = ''repository'', Name = repo\<rparr>, Action = ''push''\<rparr>]
           else if method = ''DELETE'' then
             [\<lparr>Resource = \<lparr>Type = ''repository'', Name = repo\<rparr>, Action = ''delete''\<rparr>]
           else [])"
    by (simp add: appendAccessRecords_def MethodGet_def MethodHead_def MethodPost_def
        MethodPut_def MethodPatch_def MethodDelete_def Let_def)
  then show ?thesis
    using authorized_plain [of app ac r x] by auto
qed

theorem appendAccessRecords_by_method_witness:
  "''HEAD'' \<in> {''GET'', ''HEAD''} \<and>
   appendAccessRecords [] ''HEAD'' ''library/nginx'' =
     [\<lparr>Resource = \<lparr>Type = ''repository'', Name = ''library/nginx''\<rparr>, Action = ''pull''\<rparr>] \<and>
   ''PUT'' \<in> {''POST'', ''PUT'', ''PATCH''} \<and>
   appendAccessRecords [] ''PUT'' ''library/nginx'' =
     [\<lparr>Resource = \<lparr>Type = ''repository'', Name = ''library/nginx''\<rparr>, Action = ''pull''\<rparr>,
      \<lparr>Resource = \<lparr>Type = ''repository'', Name = ''library/nginx''\<rparr>, Action = ''push''\<rparr>] \<and>
   appendAccessRecords [] ''DELETE'' ''library/nginx'' =
     [\<lparr>Resource = \<lparr>Type = ''repository'', Name = ''library/nginx''\<rparr>, Action = ''delete''\<rparr>] \<and>
   ''TRACE'' \<notin> {''GET'', ''HEAD'', ''POST'', ''PUT'', ''PATCH'', ''DELETE''} \<and>
   appendAccessRecords [] ''TRACE'' ''library/nginx'' = [] \<and>
   accessController example_app = Some example_controller \<and>
   getName bad_token_request \<noteq> [] \<and> FormValue bad_token_request ''from'' = [] \<and>
   trace (snd (authorized example_app bad_token_request
     \<lparr>w = fresh, Errors = [], grant = None, Repository_of = None, trace = [],
       panicking = False\<rparr>)) =
     [Authorized_call
       [\<lparr>Resource = \<lparr>Type = ''repository'', Name = ''bob/app''\<rparr>, Action = ''pull''\<rparr>]]"
  using appendAccessRecords_by_method [of "''HEAD''" "[]" "''library/nginx''"]
    appendAccessRecords_by_method [of "''PUT''" "[]" "''library/nginx''"]
    appendAccessRecords_by_method [of "''DELETE''" "[]" "''library/nginx''"]
    appendAccessRecords_by_method [of "''TRACE''" "[]" "''library/nginx''"]
    appendAccessRecords_by_method [of "''GET''" "[]" "''bob/app''" example_app example_controller
      bad_token_request "\<lparr>w = fresh, Errors = [], grant = None, Repository_of = None,
        trace = [], panicking = False\<rparr>"]
  by (simp add: example_app_def bad_token_request_def getName_def)

text \<open>
  C2. For a request on a named repository whose form value \<^verbatim>\<open>from\<close> is not empty, the
  access controller is asked about the records of the method on the named repository
  followed by the record that \<^verbatim>\<open>appendAccessRecords\<close> assembles for GET on the source
  repository: the pull record on \<^verbatim>\<open>from\<close>.
\<close>

theorem authorized_mount_pull_on_source:
  assumes "accessController app = Some ac" and "getName r \<noteq> []" and "FormValue r ''from'' \<noteq> []"
  shows "trace (snd (authorized app r x)) =
           trace x @ [Authorized_call
             (appendAccessRecords (appendAccessRecords [] (Method r) (getName r)) ''GET''
                (FormValue r ''from''))] \<and>
         appendAccessRecords (appendAccessRecords [] (Method r) (getName r)) ''GET''
             (FormValue r ''from'') =
           appendAccessRecords [] (Method r) (getName r) @
             [\<lparr>Resource = \<lparr>Type = ''repository'', Name = FormValue r ''from''\<rparr>,
               Action = ''pull''\<rparr>]"
  using assms appendAccessRecords_Get
  by (simp add: authorized_def Let_def MethodGet_def split: auth_result.splits)

theorem authorized_mount_pull_on_source_witness:
  "accessController example_app = Some example_controller \<and> getName mount_request \<noteq> [] \<and>
   FormValue mount_request ''from'' \<noteq> [] \<and>
   trace (snd (authorized example_app mount_request
     \<lparr>w = fresh, Errors = [], grant = None, Repository_of = None, trace = [],
       panicking = False\<rparr>)) =
     [Authorized_call
       [\<lparr>Resource = \<lparr>Type = ''repository'', Name = ''bob/app''\<rparr>, Action = ''pull''\<rparr>,
        \<lparr>Resource = \<lparr>Type = ''repository'', Name = ''bob/app''\<rparr>, Action = ''push''\<rparr>,
        \<lparr>Resource = \<lparr>Type = ''repository'', Name = ''alice/app''\<rparr>, Action = ''pull''\<rparr>]]"
  using authorized_mount_pull_on_source [of example_app example_controller mount_request
     "\<lparr>w = fresh, Errors = [], grant = None, Repository_of = None, trace = [],
       panicking = False\<rparr>"]
  by (simp add: example_app_def mount_request_def getName_def appendAccessRecords_def
      MethodGet_def MethodHead_def MethodPost_def Let_def)

subsection \<open>The response writer through the dispatcher\<close>

lemma add_values_wrote [simp]:
  "wrote (fold (\<lambda>value rw''. rw''\<lparr>Header := Header_Add (Header rw'') k value\<rparr>) vs rw) = wrote rw"
  by (induction vs arbitrary: rw) auto

lemma add_values_body [simp]:
  "body (fold (\<lambda>value rw''. rw''\<lparr>Header := Header_Add (Header rw'') k value\<rparr>) vs rw) = body rw"
  by (induction vs arbitrary: rw) auto

lemma add_headers_wrote [simp]:
  "wrote (fold (\<lambda>(headerName, headerValues) rw'.
             fold (\<lambda>value rw''. rw''\<lparr>Header := Header_Add (Header rw'') headerName value\<rparr>)
               headerValues rw') hs rw) = wrote rw"
  by (induction hs arbitrary: rw) auto

lemma add_headers_body [simp]:
  "body (fold (\<lambda>(headerName, headerValues) rw'.
             fold (\<lambda>value rw''. rw''\<lparr>Header := Header_Add (Header rw'') headerName value\<rparr>)
               headerValues rw') hs rw) = body rw"
  by (induction hs arbitrary: rw) auto

lemma trace_deferred [simp]: "trace (deferred x) = trace x"
  by (simp add: deferred_def)

lemma trace_fail [simp]: "trace (fail x errs) = trace x"
  by (simp add: fail_def Let_def)

text \<open>The three ways out of \<^verbatim>\<open>authorized\<close> when an access controller is configured.\<close>

lemma authorized_outcome:
  assumes "accessController app = Some ac"
  shows "authorized app r x =
           (Refused ''forbidden: no repository name'',
            x\<lparr>w := ServeJSON (w x) [errcode_ErrorCode ErrorCodeUnauthorized]\<rparr>)
       \<or> authorized app r x = (Panicked, x\<lparr>panicking := True\<rparr>)
       \<or> (\<exists>recs. authorized app r x =
             (case ac r recs of
                Challenge challenge \<Rightarrow>
                  (Refused ''challenge'',
                   x\<lparr>trace := trace x @ [Authorized_call recs],
                      w := ServeJSON (SetHeaders challenge (w x))
                             [errcode_Error ErrorCodeUnauthorized (DetailRecords recs)]\<rparr>)
              | ControllerError err \<Rightarrow>
                  (Refused err,
                   x\<lparr>trace := trace x @ [Authorized_call recs], w := WriteHeader (w x) 400\<rparr>)
              | NilGrant \<Rightarrow>
                  (Refused ''access controller returned neither an access grant nor an error'',
                   x\<lparr>trace := trace x @ [Authorized_call recs]\<rparr>)
              | Granted g \<Rightarrow>
                  (Proceed, x\<lparr>trace := trace x @ [Authorized_call recs], grant := Some g\<rparr>)))"
    (is "_ \<or> _ \<or> ?C")
proof (cases "getName r = []")
  case True
  show ?thesis
  proof (cases "nameRequired r")
    case True
    with \<open>getName r = []\<close> assms show ?thesis by (simp add: authorized_def)
  next
    case False
    show ?thesis
    proof (cases "appendCatalogAccessRecord [] r")
      case None
      with False \<open>getName r = []\<close> assms show ?thesis by (simp add: authorized_def)
    next
      case (Some recs)
      with False \<open>getName r = []\<close> assms have ?C
        by (intro exI [of _ recs]) (simp add: authorized_def Let_def split: auth_result.split)
      then show ?thesis by blast
    qed
  qed
next
  case False
  show ?thesis
  proof (cases "FormValue r ''from'' = []")
    case True
    with False assms have ?C
      by (intro exI [of _ "appendAccessRecords [] (Method r) (getName r)"])
         (simp add: authorized_def Let_def split: auth_result.split)
    then show ?thesis by blast
  next
    case nonempty: False
    with False assms have ?C
      by (intro exI [of _ "appendAccessRecords (appendAccessRecords [] (Method r) (getName r))
             MethodGet (FormValue r ''from'')"])
         (simp add: authorized_def Let_def split: auth_result.split)
    then show ?thesis by blast
  qed
qed

lemma authorized_nameless:
  assumes "accessController app = Some ac" and "getName r = []" and "nameRequired r"
  shows "authorized app r x =
           (Refused ''forbidden: no repository name'',
            x\<lparr>w := ServeJSON (w x) [errcode_ErrorCode ErrorCodeUnauthorized]\<rparr>)"
  using assms by (simp add: authorized_def)

lemma dispatcher_not_proceed:
  assumes "authorized app r
             \<lparr>w = fold (\<lambda>(headerName, headerValues) rw'.
                   fold (\<lambda>value rw''. rw''\<lparr>Header := Header_Add (Header rw'') headerName value\<rparr>)
                     headerValues rw')
                 (HTTP_Headers (Config app)) rw,
               Errors = [], grant = None, Repository_of = None, trace = [],
               panicking = False\<rparr> = (a, x)"
      and "a \<noteq> Proceed"
  shows "dispatcher app env dispatch r rw = deferred x"
  using assms by (cases a) (simp_all add: dispatcher_def Let_def)

lemma dispatcher_proceed_trace:
  assumes "authorized app r
             \<lparr>w = fold (\<lambda>(headerName, headerValues) rw'.
                   fold (\<lambda>value rw''. rw''\<lparr>Header := Header_Add (Header rw'') headerName value\<rparr>)
                     headerValues rw')
                 (HTTP_Headers (Config app)) rw,
               Errors = [], grant = None, Repository_of = None, trace = [],
               panicking = False\<rparr> = (Proceed, x)"
  shows "\<exists>rest. trace (dispatcher app env dispatch r rw) = trace x @ rest \<and>
                (\<forall>recs. Authorized_call recs \<notin> set rest)"
  using assms
  by (auto simp: dispatcher_def Let_def split: option.splits sum.splits prod.splits)

subsection \<open>Errors of the access controller\<close>

text \<open>
  C3. When the access controller, asked about the access records of a request, returns a
  challenge, the response has status 401, the \<^verbatim>\<open>WWW-Authenticate\<close> header of the
  challenge, and the JSON error body with the code UNAUTHORIZED and the access records as
  detail. When it returns any other error, the response has status 400 and no body.
\<close>

theorem controller_error_response:
  assumes fresh: "wrote rw = None" "body rw = []"
      and ctl: "accessController app = Some ac"
      and call: "Authorized_call records \<in> set (trace (ServeHTTP app env r rw))"
  shows "(ac r records = Challenge challenge \<longrightarrow>
            fst (sent (w (ServeHTTP app env r rw))) = 401 \<and>
            snd (sent (w (ServeHTTP app env r rw))) ''WWW-Authenticate'' = [challenge] \<and>
            body (w (ServeHTTP app env r rw)) =
              [JSON [errcode_Error ErrorCodeUnauthorized (DetailRecords records)]]) \<and>
         (ac r records = ControllerError err \<longrightarrow>
            fst (sent (w (ServeHTTP app env r rw))) = 400 \<and>
            body (w (ServeHTTP app env r rw)) = [])"
proof -
  let ?rw = "rw\<lparr>Header := Header_Add (Header rw) ''Docker-Distribution-API-Version''
                ''registry/2.0''\<rparr>"
  let ?rw1 = "fold (\<lambda>(headerName, headerValues) rw'.
                   fold (\<lambda>value rw''. rw''\<lparr>Header := Header_Add (Header rw'') headerName value\<rparr>)
                     headerValues rw')
                 (HTTP_Headers (Config app)) ?rw"
  let ?ctx = "\<lparr>w = ?rw1, Errors = [], grant = None, Repository_of = None, trace = [],
               panicking = False\<rparr>"
  obtain routeName where route: "CurrentRoute r = Some routeName"
    using call by (cases "CurrentRoute r") (auto simp: ServeHTTP_def router_ServeHTTP_def)
  let ?d = "dispatcher app env (registered env routeName) r ?rw"
  have serve: "ServeHTTP app env r rw = ?d"
    using route by (simp add: ServeHTTP_def router_ServeHTTP_def)
  have w1: "wrote ?rw1 = None" "body ?rw1 = []"
    using fresh by simp_all
  consider
      (nameless) "authorized app r ?ctx =
           (Refused ''forbidden: no repository name'',
            ?ctx\<lparr>w := ServeJSON (w ?ctx) [errcode_ErrorCode ErrorCodeUnauthorized]\<rparr>)"
    | (panic) "authorized app r ?ctx = (Panicked, ?ctx\<lparr>panicking := True\<rparr>)"
    | (callout) recs where "authorized app r ?ctx =
             (case ac r recs of
                Challenge challenge \<Rightarrow>
                  (Refused ''challenge'',
                   ?ctx\<lparr>trace := trace ?ctx @ [Authorized_call recs],
                      w := ServeJSON (SetHeaders challenge (w ?ctx))
                             [errcode_Error ErrorCodeUnauthorized (DetailRecords recs)]\<rparr>)
              | ControllerError err \<Rightarrow>
                  (Refused err,
                   ?ctx\<lparr>trace := trace ?ctx @ [Authorized_call recs],
                         w := WriteHeader (w ?ctx) 400\<rparr>)
              | NilGrant \<Rightarrow>
                  (Refused ''access controller returned neither an access grant nor an error'',
                   ?ctx\<lparr>trace := trace ?ctx @ [Authorized_call recs]\<rparr>)
              | Granted g \<Rightarrow>
                  (Proceed, ?ctx\<lparr>trace := trace ?ctx @ [Authorized_call recs],
                                  grant := Some g\<rparr>))"
    using authorized_outcome [OF ctl, of r ?ctx] by blast
  then show ?thesis
  proof cases
    case nameless
    then have "trace ?d = []"
      using dispatcher_not_proceed [OF nameless, of env "registered env routeName"] by simp
    with call serve show ?thesis by simp
  next
    case panic
    then have "trace ?d = []"
      using dispatcher_not_proceed [OF panic, of env "registered env routeName"] by simp
    with call serve show ?thesis by simp
  next
    case (callout recs)
    show ?thesis
    proof (cases "ac r recs")
      case (Granted g)
      have p: "authorized app r ?ctx =
                 (Proceed, ?ctx\<lparr>trace := [Authorized_call recs], grant := Some g\<rparr>)"
        using callout Granted by simp
      obtain rest where "trace ?d = [Authorized_call recs] @ rest"
          and "\<forall>recs. Authorized_call recs \<notin> set rest"
        using dispatcher_proceed_trace [OF p, of env "registered env routeName"] by auto
      with call serve have "records = recs" by auto
      with Granted show ?thesis by simp
    next
      case NilGrant
      have p: "authorized app r ?ctx =
                 (Refused ''access controller returned neither an access grant nor an error'',
                  ?ctx\<lparr>trace := [Authorized_call recs]\<rparr>)"
        using callout NilGrant by simp
      have "?d = ?ctx\<lparr>trace := [Authorized_call recs]\<rparr>"
        using dispatcher_not_proceed [OF p, of env "registered env routeName"]
        by (simp add: deferred_def)
      with call serve have "records = recs" by simp
      with NilGrant show ?thesis by simp
    next
      case (Challenge ch)
      have p: "authorized app r ?ctx =
                 (Refused ''challenge'',
                  ?ctx\<lparr>trace := [Authorized_call recs],
                        w := ServeJSON (SetHeaders ch ?rw1)
                               [errcode_Error ErrorCodeUnauthorized (DetailRecords recs)]\<rparr>)"
        using callout Challenge by simp
      have d: "?d = ?ctx\<lparr>trace := [Authorized_call recs],
                        w := ServeJSON (SetHeaders ch ?rw1)
                               [errcode_Error ErrorCodeUnauthorized (DetailRecords recs)]\<rparr>"
        using dispatcher_not_proceed [OF p, of env "registered env routeName"]
        by (simp add: deferred_def)
      with call serve have eq: "records = recs" by simp
      show ?thesis
        using Challenge w1 unfolding serve d eq
        by (simp add: ServeJSON_def SetHeaders_def WriteHeader_def Write_def sent_def Let_def
            Header_Set_def)
    next
      case (ControllerError e)
      have p: "authorized app r ?ctx =
                 (Refused e, ?ctx\<lparr>trace := [Authorized_call recs],
                                   w := WriteHeader ?rw1 400\<rparr>)"
        using callout ControllerError by simp
      have d: "?d = ?ctx\<lparr>trace := [Authorized_call recs], w := WriteHeader ?rw1 400\<rparr>"
        using dispatcher_not_proceed [OF p, of env "registered env routeName"]
        by (simp add: deferred_def)
      with call serve have eq: "records = recs" by simp
      show ?thesis
        using ControllerError w1 unfolding serve d eq
        by (simp add: WriteHeader_def sent_def)
    qed
  qed
qed


theorem controller_error_response_witness:
  "wrote fresh = None \<and> body fresh = [] \<and>
   accessController example_app = Some example_controller \<and>
   fst (sent (w (ServeHTTP example_app example_collaborators mount_request fresh))) = 401 \<and>
   snd (sent (w (ServeHTTP example_app example_collaborators mount_request fresh)))
     ''WWW-Authenticate'' = [''Bearer realm=auth.example.com''] \<and>
   body (w (ServeHTTP example_app example_collaborators mount_request fresh)) =
     [JSON [errcode_Error ErrorCodeUnauthorized (DetailRecords
       [\<lparr>Resource = \<lparr>Type = ''repository'', Name = ''bob/app''\<rparr>, Action = ''pull''\<rparr>,
        \<lparr>Resource = \<lparr>Type = ''repository'', Name = ''bob/app''\<rparr>, Action = ''push''\<rparr>,
        \<lparr>Resource = \<lparr>Type = ''repository'', Name = ''alice/app''\<rparr>, Action = ''pull''\<rparr>])]] \<and>
   fst (sent (w (ServeHTTP example_app example_collaborators bad_token_request fresh))) = 400 \<and>
   body (w (ServeHTTP example_app example_collaborators bad_token_request fresh)) = []"
proof -
  have f: "wrote fresh = None" "body fresh = []"
    by (simp_all add: fresh_def)
  have a: "accessController example_app = Some example_controller"
    by (simp add: example_app_def)
  let ?mount = "[\<lparr>Resource = \<lparr>Type = ''repository'', Name = ''bob/app''\<rparr>, Action = ''pull''\<rparr>,
        \<lparr>Resource = \<lparr>Type = ''repository'', Name = ''bob/app''\<rparr>, Action = ''push''\<rparr>,
        \<lparr>Resource = \<lparr>Type = ''repository'', Name = ''alice/app''\<rparr>, Action = ''pull''\<rparr>]"
  let ?tags = "[\<lparr>Resource = \<lparr>Type = ''repository'', Name = ''bob/app''\<rparr>, Action = ''pull''\<rparr>]"
  have m: "Authorized_call ?mount
             \<in> set (trace (ServeHTTP example_app example_collaborators mount_request fresh))"
    by (simp add: mount_trace)
  have b: "Authorized_call ?tags
             \<in> set (trace (ServeHTTP example_app example_collaborators bad_token_request fresh))"
    by (simp add: bad_token_trace)
  have mc: "example_controller mount_request ?mount = Challenge ''Bearer realm=auth.example.com''"
    by (simp add: example_controller_def mount_request_def)
  have bc: "example_controller bad_token_request ?tags = ControllerError ''malformed token''"
    by (simp add: example_controller_def bad_token_request_def)
  show ?thesis
    using controller_error_response [OF f a m, of "''Bearer realm=auth.example.com''" "''malformed token''"]
      controller_error_response [OF f a b, of "''Bearer realm=auth.example.com''" "''malformed token''"]
      mc bc f a
    by simp
qed

subsection \<open>Requests without a repository name\<close>

text \<open>
  C9. A route requires a name unless it is the base route or the catalog route. When an
  access controller is configured, a request on a route that requires a name and whose
  name is empty is answered with the UNAUTHORIZED error body (status 401), and neither
  the access controller nor the registry nor a handler is called.
\<close>

theorem nameless_request_rejected:
  "(nameRequired r \<longleftrightarrow>
      CurrentRoute r \<noteq> Some RouteNameBase \<and> CurrentRoute r \<noteq> Some RouteNameCatalog) \<and>
   (accessController app = Some ac \<and> wrote rw = None \<and> body rw = [] \<and>
    CurrentRoute r = Some routeName \<and> nameRequired r \<and> getName r = [] \<longrightarrow>
      trace (ServeHTTP app env r rw) = [] \<and>
      body (w (ServeHTTP app env r rw)) = [JSON [errcode_ErrorCode ErrorCodeUnauthorized]] \<and>
      fst (sent (w (ServeHTTP app env r rw))) = 401)"
proof -
  have "nameRequired r \<longleftrightarrow>
          CurrentRoute r \<noteq> Some RouteNameBase \<and> CurrentRoute r \<noteq> Some RouteNameCatalog"
    by (cases "CurrentRoute r") (simp_all add: nameRequired_def)
  moreover have "trace (ServeHTTP app env r rw) = [] \<and>
      body (w (ServeHTTP app env r rw)) = [JSON [errcode_ErrorCode ErrorCodeUnauthorized]] \<and>
      fst (sent (w (ServeHTTP app env r rw))) = 401"
    if "accessController app = Some ac" and "wrote rw = None" and "body rw = []"
      and "CurrentRoute r = Some routeName" and "nameRequired r" and "getName r = []"
    using that
    by (simp add: ServeHTTP_def router_ServeHTTP_def dispatcher_def authorized_nameless
        deferred_def ServeJSON_def WriteHeader_def Write_def sent_def Let_def)
  ultimately show ?thesis by blast
qed

theorem nameless_request_rejected_witness:
  "accessController example_app = Some example_controller \<and>
   wrote fresh = None \<and> body fresh = [] \<and>
   CurrentRoute nameless_request = Some RouteNameTags \<and> nameRequired nameless_request \<and>
   getName nameless_request = [] \<and>
   trace (ServeHTTP example_app example_collaborators nameless_request fresh) = [] \<and>
   body (w (ServeHTTP example_app example_collaborators nameless_request fresh)) =
     [JSON [errcode_ErrorCode ErrorCodeUnauthorized]] \<and>
   fst (sent (w (ServeHTTP example_app example_collaborators nameless_request fresh))) = 401"
  using nameless_request_rejected [of nameless_request example_app example_controller fresh
      RouteNameTags example_collaborators]
  by (simp add: fresh_def example_app_def nameless_request_def nameRequired_def getName_def)

subsection \<open>The API version header on every response\<close>

lemma version_kept_WriteHeader [simp]: "version_kept rw \<Longrightarrow> version_kept (WriteHeader rw code)"
  by (auto simp: version_kept_def WriteHeader_def split: option.splits)

lemma version_kept_Write [simp]: "version_kept rw \<Longrightarrow> version_kept (Write rw b)"
  using version_kept_WriteHeader [of rw 200]
  by (auto simp: version_kept_def Write_def Let_def split: option.splits)

lemma version_kept_ServeJSON [simp]: "version_kept rw \<Longrightarrow> version_kept (ServeJSON rw errs)"
  by (simp add: ServeJSON_def Let_def)

lemma version_kept_Set [simp]:
  "version_kept rw \<Longrightarrow> k \<noteq> ''Docker-Distribution-API-Version'' \<Longrightarrow>
     version_kept (rw\<lparr>Header := Header_Set (Header rw) k v\<rparr>)"
  by (auto simp: version_kept_def carries_version_def Header_Set_def)

lemma version_kept_Add [simp]:
  "version_kept rw \<Longrightarrow> version_kept (rw\<lparr>Header := Header_Add (Header rw) k v\<rparr>)"
  by (auto simp: version_kept_def carries_version_def Header_Add_def)

lemma version_kept_values [simp]:
  "version_kept rw \<Longrightarrow>
   version_kept (fold (\<lambda>value rw''. rw''\<lparr>Header := Header_Add (Header rw'') k value\<rparr>) vs rw)"
  by (induction vs arbitrary: rw) auto

lemma version_kept_headers [simp]:
  "version_kept rw \<Longrightarrow>
   version_kept (fold (\<lambda>(headerName, headerValues) rw'.
             fold (\<lambda>value rw''. rw''\<lparr>Header := Header_Add (Header rw'') headerName value\<rparr>)
               headerValues rw') hs rw)"
  by (induction hs arbitrary: rw) auto

lemma version_kept_authorized:
  "version_kept (w x) \<Longrightarrow> version_kept (w (snd (authorized app r x)))"
  by (auto simp: authorized_def Let_def SetHeaders_def split: option.splits auth_result.splits)

lemma version_kept_deferred [simp]: "version_kept (w x) \<Longrightarrow> version_kept (w (deferred x))"
  by (simp add: deferred_def)

lemma version_kept_fail [simp]: "version_kept (w x) \<Longrightarrow> version_kept (w (fail x errs))"
  by (simp add: fail_def Let_def)

lemma version_kept_dispatcher:
  assumes rw: "version_kept rw" and h: "\<And>ctx. keeps_version (dispatch ctx r)"
  shows "version_kept (w (dispatcher app env dispatch r rw))"
proof -
  let ?ctx = "\<lparr>w = fold (\<lambda>(headerName, headerValues) rw'.
                   fold (\<lambda>value rw''. rw''\<lparr>Header := Header_Add (Header rw'') headerName value\<rparr>)
                     headerValues rw')
                 (HTTP_Headers (Config app)) rw, Errors = [], grant = None, Repository_of = None,
               trace = [], panicking = False\<rparr>"
  obtain a x where ax: "authorized app r ?ctx = (a, x)"
    by (cases "authorized app r ?ctx")
  have "version_kept (w ?ctx)" using rw by simp
  then have x: "version_kept (w x)"
    using version_kept_authorized [of ?ctx app r] ax by simp
  have hd: "\<And>ctx rw' a b. dispatch ctx r rw' = (a, b) \<Longrightarrow> version_kept rw' \<Longrightarrow> version_kept a"
  proof -
    fix ctx rw' a b
    assume d: "dispatch ctx r rw' = (a, b)" and k: "version_kept rw'"
    have "version_kept (fst (dispatch ctx r rw'))"
      using h [of ctx] k by (simp add: keeps_version_def)
    then show "version_kept a" using d by simp
  qed
  show ?thesis
    using x ax hd
    by (cases a)
       (auto simp: dispatcher_def Let_def split: option.splits sum.splits prod.splits
          intro!: version_kept_deferred dest: hd)
qed

lemma keeps_version_apiBase: "keeps_version apiBase"
  by (auto simp: keeps_version_def apiBase_def Let_def version_kept_def carries_version_def
      Header_Set_def Write_def WriteHeader_def split: option.splits)

lemma version_kept_registered:
  "handlers_keep_version env \<Longrightarrow> keeps_version (registered env routeName ctx r)"
  by (cases routeName) (simp_all add: registered_def handlers_keep_version_def keeps_version_apiBase)

lemma version_kept_router:
  assumes "version_kept rw" and "handlers_keep_version env"
  shows "version_kept (w (router_ServeHTTP app env r rw))"
proof (cases "CurrentRoute r")
  case None
  then show ?thesis
    using assms(1)
    by (auto simp: router_ServeHTTP_def http_Error_def Let_def version_kept_def carries_version_def
        Header_Set_def Write_def WriteHeader_def split: unmatched.splits option.splits)
next
  case (Some routeName)
  then show ?thesis
    using version_kept_dispatcher [OF assms(1), of "registered env routeName" r app env]
      version_kept_registered [OF assms(2)]
    by (simp add: router_ServeHTTP_def)
qed

text \<open>
  C8. Whatever the route and the outcome, the headers the client receives from
  \<^verbatim>\<open>ServeHTTP\<close> carry \<^verbatim>\<open>Docker-Distribution-API-Version: registry/2.0\<close>, provided that
  nothing was sent before the application was called and that the handlers of the routes
  (which are not in \<^verbatim>\<open>app.go\<close>) do not remove the header.
\<close>

theorem ServeHTTP_api_version:
  assumes "wrote rw = None" and "handlers_keep_version env"
  shows "carries_version (snd (sent (w (ServeHTTP app env r rw))))"
proof -
  have "version_kept
          (rw\<lparr>Header := Header_Add (Header rw) ''Docker-Distribution-API-Version'' ''registry/2.0''\<rparr>)"
    using assms(1) by (simp add: version_kept_def carries_version_def Header_Add_def)
  then have "version_kept (w (ServeHTTP app env r rw))"
    using version_kept_router [OF _ assms(2)] by (simp add: ServeHTTP_def)
  then show ?thesis
    by (auto simp: version_kept_def sent_def split: option.splits)
qed

theorem ServeHTTP_api_version_witness:
  "wrote fresh = None \<and> handlers_keep_version example_collaborators \<and>
   carries_version (snd (sent (w (ServeHTTP example_app example_collaborators bad_token_request fresh))))"
proof -
  have k: "keeps_version (ok_dispatcher ctx r)" for ctx r
    by (auto simp: keeps_version_def ok_dispatcher_def)
  have h: "handlers_keep_version example_collaborators"
    by (simp add: handlers_keep_version_def example_collaborators_def k)
  have f: "wrote fresh = None" by (simp add: fresh_def)
  show ?thesis using f h ServeHTTP_api_version [OF f h] by simp
qed

subsection \<open>The steps of the construction\<close>

text \<open>
  A construction that returns an application went through every step of \<^verbatim>\<open>NewApp\<close>
  without a panic (\<open>NewApp_chain\<close>); the other lemmas say what each step leaves
  unchanged.
\<close>

lemma andThen_Inr: "andThen m f = Inr y \<longleftrightarrow> (\<exists>x. m = Inr x \<and> f x = Inr y)"
  by (cases m) (simp_all add: andThen_def)

lemma andThenE:
  assumes "andThen m f = Inr y"
  obtains x where "m = Inr x" and "f x = Inr y"
  using assms by (auto simp: andThen_Inr)

lemma maintenance_frame:
  "NewApp_maintenance app = Inr (purgeConfig, app') \<Longrightarrow>
     Config app' = Config app \<and> isCache app' = isCache app \<and> driver app' = driver app \<and>
     logged app' = logged app \<and> registry app' = registry app \<and> redis app' = redis app \<and>
     uploadPurging app' = uploadPurging app"
  by (auto simp: NewApp_maintenance_def andThen_def split: option.splits dyn.splits sum.splits)

lemma configureSecret_frame:
  "configureSecret env app = Inr app' \<Longrightarrow>
     isCache app' = isCache app \<and> driver app' = driver app \<and> registry app' = registry app \<and>
     redis app' = redis app \<and> uploadPurging app' = uploadPurging app \<and>
     set (logged app) \<subseteq> set (logged app') \<and>
     (\<exists>secret. Config app' = (Config app)\<lparr>HTTP_Secret := secret\<rparr>)"
  apply (auto simp: configureSecret_def logf_def Let_def split: if_splits sum.splits)
  apply (rule exI [of _ "HTTP_Secret (Config app)"], simp)
  done

lemma configureRedis_frame:
  "configureRedis env app = Inr app' \<Longrightarrow>
     Config app' = Config app \<and> isCache app' = isCache app \<and> driver app' = driver app \<and>
     registry app' = registry app \<and> uploadPurging app' = uploadPurging app \<and>
     set (logged app) \<subseteq> set (logged app')"
  by (auto simp: configureRedis_def logf_def Let_def split: if_splits option.splits)

lemma redirect_frame:
  "NewApp_redirect app options = Inr (app', options') \<Longrightarrow>
     Config app' = Config app \<and> isCache app' = isCache app \<and> driver app' = driver app \<and>
     registry app' = registry app \<and> redis app' = redis app \<and>
     uploadPurging app' = uploadPurging app \<and>
     set (logged app) \<subseteq> set (logged app') \<and>
     (options' = options \<or> options' = options @ [EnableRedirect])"
  by (auto simp: NewApp_redirect_def andThen_Inr logf_def split: if_splits option.splits dyn.splits)

lemma validation_frame:
  "NewApp_validation env app options = Inr (app', options') \<Longrightarrow>
     isCache app' = isCache app \<and> driver app' = driver app \<and>
     registry app' = registry app \<and> redis app' = redis app \<and>
     uploadPurging app' = uploadPurging app \<and>
     set (logged app) \<subseteq> set (logged app') \<and>
     HTTP_Secret (Config app') = HTTP_Secret (Config app) \<and>
     Proxy_RemoteURL (Config app') = Proxy_RemoteURL (Config app) \<and>
     Storage (Config app') = Storage (Config app) \<and>
     Middleware (Config app') = Middleware (Config app) \<and>
     Auth_Type (Config app') = Auth_Type (Config app) \<and>
     Validation_Enabled (Config app') =
       (Validation_Enabled (Config app) \<or> \<not> Validation_Disabled (Config app))"
  by (auto simp: NewApp_validation_def andThen_Inr logf_def Let_def MustCompile_def
      split: if_splits sum.splits prod.splits option.splits)


lemma andThen_pairE:
  assumes "andThen m (case_prod f) = Inr y"
  obtains a b where "m = Inr (a, b)" and "f a b = Inr y"
  using assms by (auto simp: andThen_Inr)

lemma NewApp_chain:
  assumes "NewApp env config = Inr app"
  obtains a0 purgeConfig a1 purger a2 a3 a4 a5 options a6 options' a7 options'' a8 a9 a10 a11 a12
  where "(case factory_Create env config of
            Inl err \<Rightarrow> Inl (Panic err)
          | Inr d \<Rightarrow>
              Inr (\<lparr>Config = config, driver = None, registry = None, repoRemover = False,
                    accessController = None, httpHost = ([], []), redis = None,
                    isCache = (Proxy_RemoteURL config \<noteq> []), readOnly = False,
                    uploadPurging = None, logged = []\<rparr>\<lparr>driver := Some d\<rparr>)) = Inr a0"
    and "NewApp_maintenance a0 = Inr (purgeConfig, a1)"
    and "startUploadPurger env (driver a1) purgeConfig = Inr purger"
    and "(case applyStorageMiddleware env (driver a1) (middlewares (Config a1) ''storage'') of
            Inl err \<Rightarrow> Inl (Panic err)
          | Inr d \<Rightarrow> Inr (a1\<lparr>uploadPurging := purger, driver := d\<rparr>)) = Inr a2"
    and "(if \<not> isCache a2 then configureSecret env a2 else Inr a2) = Inr a3"
    and "configureRedis env a3 = Inr a4"
    and "(if HTTP_Host (Config a4) \<noteq> [] then
            (case url_Parse env (HTTP_Host (Config a4)) of
               Inl err \<Rightarrow> Inl (Panic (''could not parse http host parameter: '' @ err))
             | Inr u \<Rightarrow> Inr (a4\<lparr>httpHost := u\<rparr>))
          else Inr a4) = Inr a5"
    and "NewApp_tag (Config a5)
           (NewApp_deletion (Config a5)
              (if isCache a5 then GetRegistryOptions env @ [DisableDigestResumption]
               else GetRegistryOptions env)) = Inr options"
    and "NewApp_redirect a5 options = Inr (a6, options')"
    and "NewApp_validation env a6 options' = Inr (a7, options'')"
    and "NewApp_cache env a7 options'' = Inr a8"
    and "(if registry a8 = None then
            (case NewRegistry env (driver a8) options'' of
               Some err \<Rightarrow> Inl (Panic (''could not create registry: '' @ err))
             | None \<Rightarrow> Inr (a8\<lparr>registry := Some (Registry (driver a8) options'')\<rparr>))
          else Inr a8) = Inr a9"
    and "(case applyRegistryMiddleware env (registry a9) (middlewares (Config a9) ''registry'') of
            Inl err \<Rightarrow> Inl (Panic err)
          | Inr reg \<Rightarrow> Inr (a9\<lparr>registry := reg\<rparr>)) = Inr a10"
    and "(if Auth_Type (Config a10) \<noteq> [] \<and> \<not> EqualFold_none (Auth_Type (Config a10)) then
            (case GetAccessController env (Auth_Type (Config a10)) of
               Inl err \<Rightarrow> Inl (Panic (''unable to configure authorization: '' @ err))
             | Inr ac \<Rightarrow>
                 Inr (logf Debug ''configured access controller''
                       (a10\<lparr>accessController := Some ac\<rparr>)))
          else Inr a10) = Inr a11"
    and "(if Proxy_RemoteURL (Config a11) \<noteq> [] then
            (case NewRegistryPullThroughCache env (registry a11) of
               Some err \<Rightarrow> Inl (Panic err)
             | None \<Rightarrow>
                 Inr (logf Info ''Registry configured as a proxy cache''
                       (a11\<lparr>registry := Some (PullThroughCache (registry a11)),
                             isCache := True\<rparr>)))
          else Inr a11) = Inr a12"
    and "Inr (if \<not> isRepositoryRemover env (registry a12) then
                logf Warn (''Registry does not implement RepositoryRemover. Will not be '' @
                           ''able to delete repos and tags'')
                  (a12\<lparr>repoRemover := isRepositoryRemover env (registry a12)\<rparr>)
              else a12\<lparr>repoRemover := isRepositoryRemover env (registry a12)\<rparr>)
           = (Inr app :: panic + App)"
  using assms unfolding NewApp_def Let_def
  apply -
  apply ((erule andThen_pairE | erule andThenE)+)
  apply (rule that; assumption?)
  done

lemma cache_frame:
  "NewApp_cache env app options = Inr app' \<Longrightarrow>
     Config app' = Config app \<and> isCache app' = isCache app \<and> driver app' = driver app \<and>
     redis app' = redis app \<and> uploadPurging app' = uploadPurging app \<and>
     set (logged app) \<subseteq> set (logged app') \<and>
     (registry app' = registry app \<or>
      (\<exists>provider. registry app' =
         Some (Registry (driver app) (options @ [BlobDescriptorCacheProvider provider]))))"
  by (auto simp: NewApp_cache_def andThen_Inr logf_def Let_def
      split: if_splits sum.splits option.splits)

lemma applyRegistryMiddleware_options:
  "applyRegistryMiddleware env (Some reg) mws = Inr r \<Longrightarrow>
     \<exists>reg'. r = Some reg' \<and> registryOptions reg' = registryOptions reg"
proof (induction mws arbitrary: reg)
  case Nil
  then show ?case by auto
next
  case (Cons mw mws)
  then have "applyRegistryMiddleware env (Some (RegistryMiddleware mw (Some reg))) mws = Inr r"
    by (auto split: option.splits)
  from Cons.IH [OF this] show ?case by simp
qed

lemma NewApp_summary:
  assumes "NewApp env config = Inr app"
  obtains d purgeConfig a0 a1 purger a2 a3 a6 options options' a7 options'' reg
  where "factory_Create env config = Inr d"
    and "Config a0 = config" and "driver a0 = Some d"
    and "NewApp_maintenance a0 = Inr (purgeConfig, a1)"
    and "startUploadPurger env (Some d) purgeConfig = Inr purger"
    and "uploadPurging app = purger"
    and "Config a2 = config" and "logged a2 = []"
    and "(if Proxy_RemoteURL config = [] then configureSecret env a2 else Inr a2) = Inr a3"
    and "NewApp_tag (Config a3)
           (NewApp_deletion (Config a3)
              (if Proxy_RemoteURL config \<noteq> [] then GetRegistryOptions env @ [DisableDigestResumption]
               else GetRegistryOptions env)) = Inr options"
    and "options' = options \<or> options' = options @ [EnableRedirect]"
    and "Config a6 = Config a3"
    and "NewApp_validation env a6 options' = Inr (a7, options'')"
    and "Config app = Config a7"
    and "set (logged a3) \<subseteq> set (logged app)"
    and "registry app = Some reg"
    and "registryOptions reg = Some options'' \<or>
         (\<exists>provider. registryOptions reg =
            Some (options'' @ [BlobDescriptorCacheProvider provider]))"
  using assms
proof (elim NewApp_chain, goal_cases)
  case (1 a0 purgeConfig a1 purger a2 a3 a4 a5 options a6 options' a7 options'' a8 a9 a10 a11 a12)
  note that = 1(1)
  from 1(2) obtain d where d: "factory_Create env config = Inr d"
      and a0: "Config a0 = config" "driver a0 = Some d" "registry a0 = None" "logged a0 = []"
              "isCache a0 = (Proxy_RemoteURL config \<noteq> [])"
    by (auto split: sum.splits)
  note f1 = maintenance_frame [OF 1(3)]
  from 1(5) f1 a0 have a2: "Config a2 = config" "registry a2 = None" "logged a2 = []"
      "isCache a2 = (Proxy_RemoteURL config \<noteq> [])" "uploadPurging a2 = purger"
    by (auto split: sum.splits)
  from 1(6) a2 have sec: "(if Proxy_RemoteURL config = [] then configureSecret env a2 else Inr a2) = Inr a3"
    by simp
  from 1(6) a2 have a3: "registry a3 = None" "isCache a3 = (Proxy_RemoteURL config \<noteq> [])"
      "uploadPurging a3 = purger"
    using configureSecret_frame [of env a2 a3] by (auto split: if_splits)
  note f4 = configureRedis_frame [OF 1(7)]
  from 1(8) f4 a3 have a5: "Config a5 = Config a3" "registry a5 = None"
      "isCache a5 = (Proxy_RemoteURL config \<noteq> [])" "uploadPurging a5 = purger"
      "set (logged a3) \<subseteq> set (logged a5)"
    by (auto split: if_splits sum.splits)
  from 1(9) a5 have opts: "NewApp_tag (Config a3)
           (NewApp_deletion (Config a3)
              (if Proxy_RemoteURL config \<noteq> [] then GetRegistryOptions env @ [DisableDigestResumption]
               else GetRegistryOptions env)) = Inr options"
    by simp
  note f6 = redirect_frame [OF 1(10)]
  note f7 = validation_frame [OF 1(11)]
  note f8 = cache_frame [OF 1(12)]
  from f6 f7 f8 a5 have a8: "Config a8 = Config a7" "uploadPurging a8 = purger"
      "set (logged a3) \<subseteq> set (logged a8)"
      "Proxy_RemoteURL (Config a8) = Proxy_RemoteURL (Config a3)"
    by auto
  from f6 f7 f8 a5 have r8: "registry a8 = None \<or>
      (\<exists>provider. registry a8 =
         Some (Registry (driver a7) (options'' @ [BlobDescriptorCacheProvider provider])))"
    by auto
  from 1(13) r8 obtain reg9 where a9: "registry a9 = Some reg9"
      "registryOptions reg9 = Some options'' \<or>
         (\<exists>provider. registryOptions reg9 =
            Some (options'' @ [BlobDescriptorCacheProvider provider]))"
      "Config a9 = Config a8" "uploadPurging a9 = uploadPurging a8" "logged a9 = logged a8"
    by (auto split: if_splits option.splits)
  from 1(14) a9 obtain reg10 where a10: "registry a10 = Some reg10"
      "registryOptions reg10 = registryOptions reg9"
      "Config a10 = Config a8" "uploadPurging a10 = uploadPurging a8" "logged a10 = logged a8"
    using applyRegistryMiddleware_options [of env reg9 "middlewares (Config a9) ''registry''"]
    by (auto split: sum.splits)
  from 1(15) a10 have a11: "registry a11 = Some reg10"
      "Config a11 = Config a8" "uploadPurging a11 = uploadPurging a8"
      "set (logged a8) \<subseteq> set (logged a11)"
    by (auto simp: logf_def split: if_splits sum.splits)
  from 1(16) a11 have "\<exists>reg12. registry a12 = Some reg12 \<and>
      registryOptions reg12 = registryOptions reg10 \<and>
      Config a12 = Config a8 \<and> uploadPurging a12 = uploadPurging a8 \<and>
      set (logged a8) \<subseteq> set (logged a12)"
    by (auto simp: logf_def split: if_splits option.splits)
  then obtain reg12 where a12: "registry a12 = Some reg12"
      "registryOptions reg12 = registryOptions reg10"
      "Config a12 = Config a8" "uploadPurging a12 = uploadPurging a8"
      "set (logged a8) \<subseteq> set (logged a12)"
    by blast
  from 1(17) a12 have app: "registry app = Some reg12"
      "Config app = Config a8" "uploadPurging app = uploadPurging a8"
      "set (logged a8) \<subseteq> set (logged app)"
    by (auto simp: logf_def split: if_splits)
  show ?case
  proof (rule that [of d a0 purgeConfig a1 purger a2 a3 options options' a6 a7 options'' reg12])
    show "factory_Create env config = Inr d" by (rule d)
    show "Config a0 = config" "driver a0 = Some d" by (rule a0)+
    show "NewApp_maintenance a0 = Inr (purgeConfig, a1)" by (rule 1(3))
    show "startUploadPurger env (Some d) purgeConfig = Inr purger"
      using 1(4) f1 a0 by simp
    show "uploadPurging app = purger" using app a8 by simp
    show "Config a2 = config" "logged a2 = []" by (rule a2)+
    show "(if Proxy_RemoteURL config = [] then configureSecret env a2 else Inr a2) = Inr a3"
      by (rule sec)
    show "NewApp_tag (Config a3)
           (NewApp_deletion (Config a3)
              (if Proxy_RemoteURL config \<noteq> [] then GetRegistryOptions env @ [DisableDigestResumption]
               else GetRegistryOptions env)) = Inr options" by (rule opts)
    show "options' = options \<or> options' = options @ [EnableRedirect]" using f6 by simp
    show "Config a6 = Config a3" using f6 a5 by simp
    show "NewApp_validation env a6 options' = Inr (a7, options'')" by (rule 1(11))
    show "Config app = Config a7" using app a8 by simp
    show "set (logged a3) \<subseteq> set (logged app)" using app a8 by blast
    show "registry app = Some reg12" by (rule app)
    show "registryOptions reg12 = Some options'' \<or>
         (\<exists>provider. registryOptions reg12 =
            Some (options'' @ [BlobDescriptorCacheProvider provider]))"
      using a9 a10 a12 by simp
  qed
qed

subsection \<open>Evaluation of the construction on the examples\<close>

lemmas construction_defs =
  NewApp_def NewApp_maintenance_def NewApp_deletion_def NewApp_tag_def NewApp_redirect_def
  NewApp_validation_def NewApp_cache_def startUploadPurger_def uploadPurgeDefaultConfig_def
  configureSecret_def configureRedis_def andThen_def logf_def middlewares_def
  EqualFold_none_def lower_def randomSecretSize_def readInto_def

lemma NewApp_example: "NewApp example_env example_config = Inr example_built"
  by (simp add: construction_defs example_env_def example_config_def example_built_def
      example_purger_def Let_def)

lemma NewApp_proxy: "NewApp example_env proxy_config = Inr proxy_built"
  by (simp add: construction_defs example_env_def example_config_def proxy_config_def
      proxy_built_def example_purger_def Let_def)

lemma NewApp_purging_off: "NewApp example_env purging_off_config = Inr purging_off_built"
  by (simp add: construction_defs example_env_def example_config_def purging_off_config_def
      purging_off_built_def example_built_def example_purger_def Let_def)

subsection \<open>Validation is enabled by default\<close>

text \<open>
  C10. After the construction the flag \<^verbatim>\<open>validation.enabled\<close> is true exactly when the
  configuration set it or did not set \<^verbatim>\<open>validation.disabled\<close>: it is true unless
  validation was disabled.
\<close>

theorem validation_enabled_by_default:
  assumes "NewApp env config = Inr app"
  shows "Validation_Enabled (Config app) =
           (Validation_Enabled config \<or> \<not> Validation_Disabled config)"
proof -
  from assms obtain a3 a6 options' a7 options'' a2
    where a2: "Config a2 = config"
      and sec: "(if Proxy_RemoteURL config = [] then configureSecret env a2 else Inr a2) = Inr a3"
      and a6: "Config a6 = Config a3"
      and v: "NewApp_validation env a6 options' = Inr (a7, options'')"
      and app: "Config app = Config a7"
    by (rule NewApp_summary)
  from sec a2 have "Validation_Enabled (Config a3) = Validation_Enabled config"
      "Validation_Disabled (Config a3) = Validation_Disabled config"
    using configureSecret_frame [of env a2 a3] by (auto split: if_splits)
  with validation_frame [OF v] a6 app show ?thesis by simp
qed

theorem validation_enabled_by_default_witness:
  "NewApp example_env example_config = Inr example_built \<and>
   Validation_Enabled example_config = False \<and> Validation_Disabled example_config = False \<and>
   Validation_Enabled (Config example_built) = True"
  using validation_enabled_by_default [OF NewApp_example] NewApp_example
  by (simp add: example_config_def)

subsection \<open>The HTTP secret\<close>

text \<open>
  C5, as stated, fails: for a configuration with an empty \<^verbatim>\<open>http.secret\<close> and a proxy
  remote URL the construction leaves the secret empty and logs no warning about it.
\<close>

theorem proxy_secret_counterexample:
  "HTTP_Secret proxy_config = [] \<and>
   NewApp example_env proxy_config = Inr proxy_built \<and>
   HTTP_Secret (Config proxy_built) = [] \<and>
   (Warn, secretWarning) \<notin> set (logged proxy_built)"
  using NewApp_proxy
  by (simp add: proxy_config_def example_config_def proxy_built_def)

text \<open>
  C5, amended. When the construction returns an application for a configuration whose
  \<^verbatim>\<open>http.secret\<close> and \<^verbatim>\<open>proxy.remoteurl\<close> are both empty, the HTTP secret of the
  application is the array of 32 bytes that \<^verbatim>\<open>rand.Read\<close> filled, and the warning has
  been logged. With a proxy remote URL the secret is the configured one.
\<close>

theorem secret_generated_unless_proxy:
  assumes "NewApp env config = Inr app"
  shows "(HTTP_Secret config = [] \<and> Proxy_RemoteURL config = [] \<longrightarrow>
            length (HTTP_Secret (Config app)) = 32 \<and>
            (\<exists>bytes. rand_Read env 32 = Inr bytes \<and>
               HTTP_Secret (Config app) = readInto (replicate 32 (CHR 0x00)) bytes) \<and>
            (Warn, secretWarning) \<in> set (logged app)) \<and>
         (Proxy_RemoteURL config \<noteq> [] \<longrightarrow> HTTP_Secret (Config app) = HTTP_Secret config)"
proof (rule NewApp_summary [OF assms], goal_cases)
  case (1 d purgeConfig a0 a1 purger a2 a3 a6 options options' a7 options'' reg)
  note a2 = 1(7) and sec = 1(9) and a6 = 1(12) and v = 1(13) and app = 1(14) and lg = 1(15)
  from validation_frame [OF v] a6 app
  have same: "HTTP_Secret (Config app) = HTTP_Secret (Config a3)"
    by simp
  have generated: "length (HTTP_Secret (Config app)) = 32 \<and>
            (\<exists>bytes. rand_Read env 32 = Inr bytes \<and>
               HTTP_Secret (Config app) = readInto (replicate 32 (CHR 0x00)) bytes) \<and>
            (Warn, secretWarning) \<in> set (logged app)"
    if "HTTP_Secret config = []" and "Proxy_RemoteURL config = []"
  proof -
    from sec that a2 obtain bytes where b: "rand_Read env 32 = Inr bytes"
        and s3: "HTTP_Secret (Config a3) = readInto (replicate 32 (CHR 0x00)) bytes"
        and w3: "(Warn, secretWarning) \<in> set (logged a3)"
      by (auto simp: configureSecret_def randomSecretSize_def logf_def Let_def
          split: sum.splits)
    with same lg show ?thesis by (auto simp: readInto_def)
  qed
  have kept: "HTTP_Secret (Config app) = HTTP_Secret config" if "Proxy_RemoteURL config \<noteq> []"
    using sec that a2 same by simp
  from generated kept show ?case by blast
qed

theorem secret_generated_unless_proxy_witness:
  "NewApp example_env example_config = Inr example_built \<and>
   HTTP_Secret example_config = [] \<and> Proxy_RemoteURL example_config = [] \<and>
   length (HTTP_Secret (Config example_built)) = 32 \<and>
   rand_Read example_env 32 = Inr (replicate 32 (CHR ''k'')) \<and>
   HTTP_Secret (Config example_built) = replicate 32 (CHR ''k'') \<and>
   (Warn, secretWarning) \<in> set (logged example_built) \<and>
   NewApp example_env proxy_config = Inr proxy_built \<and>
   Proxy_RemoteURL proxy_config \<noteq> [] \<and>
   HTTP_Secret (Config proxy_built) = HTTP_Secret proxy_config"
  using secret_generated_unless_proxy [OF NewApp_example]
    secret_generated_unless_proxy [OF NewApp_proxy] NewApp_example NewApp_proxy
  by (simp add: example_config_def proxy_config_def example_built_def proxy_built_def
      example_env_def)

subsection \<open>The options of the storage registry\<close>

lemma deletion_options: "set options \<subseteq> set (NewApp_deletion config options)"
  by (auto simp: NewApp_deletion_def split: option.splits dyn.splits bool.splits)

lemma tag_options: "NewApp_tag config options = Inr options' \<Longrightarrow> set options \<subseteq> set options'"
  by (auto simp: NewApp_tag_def split: option.splits dyn.splits if_splits)

lemma validation_options:
  "NewApp_validation env app options = Inr (app', options') \<Longrightarrow> set options \<subseteq> set options'"
  by (auto simp: NewApp_validation_def andThen_Inr Let_def MustCompile_def
      split: if_splits sum.splits prod.splits option.splits)

lemma validation_empty_lists:
  assumes "NewApp_validation env app options = Inr (app', options')"
      and "Validation_Enabled (Config app) \<or> \<not> Validation_Disabled (Config app)"
      and "Validation_Manifests_URLs_Allow (Config app) = []"
      and "Validation_Manifests_URLs_Deny (Config app) = []"
  shows "\<exists>post. options' = options @ [ManifestURLsAllowRegexp ''^$''] @ post \<and>
           (\<forall>opt \<in> set post. \<forall>p. applyOption opt p = p)"
  using assms
  by (auto simp: NewApp_validation_def andThen_Inr Let_def split: if_splits)

lemma fold_applyOption_id:
  "\<forall>opt \<in> set post. \<forall>p. applyOption opt p = p \<Longrightarrow> fold applyOption post p = p"
  by (induction post arbitrary: p) auto

lemma match_empty_pattern: "MatchString lib ''^$'' u \<longleftrightarrow> u = []"
  by (auto simp: MatchString_def metachar_def list_ex_iff)

text \<open>
  C6. When the construction returns an application for a configuration with a proxy remote
  URL, the storage registry underneath the application's registry was created with the
  option \<^verbatim>\<open>DisableDigestResumption\<close>.
\<close>

theorem proxy_disables_digest_resumption:
  assumes "NewApp env config = Inr app" and "Proxy_RemoteURL config \<noteq> []"
  shows "\<exists>reg options. registry app = Some reg \<and> registryOptions reg = Some options \<and>
           DisableDigestResumption \<in> set options"
proof (rule NewApp_summary [OF assms(1)], goal_cases)
  case (1 d purgeConfig a0 a1 purger a2 a3 a6 options options' a7 options'' reg)
  note t = 1(10) and r = 1(11) and v = 1(13) and reg = 1(16) and ro = 1(17)
  have "DisableDigestResumption \<in> set options"
    using tag_options [OF t] deletion_options [of "GetRegistryOptions env @ [DisableDigestResumption]"
        "Config a3"] assms(2)
    by auto
  then have "DisableDigestResumption \<in> set options'" using r by auto
  then have "DisableDigestResumption \<in> set options''" using validation_options [OF v] by auto
  with reg ro show ?case by auto
qed

theorem proxy_disables_digest_resumption_witness:
  "NewApp example_env proxy_config = Inr proxy_built \<and> Proxy_RemoteURL proxy_config \<noteq> [] \<and>
   registry proxy_built =
     Some (PullThroughCache (Some (RegistryMiddleware ''audit''
       (Some (Registry (Some (Driver ''filesystem''))
          [DisableDigestResumption, EnableRedirect, ManifestURLsAllowRegexp ''^$'',
           EnableValidateImageIndexImagesExist]))))) \<and>
   registryOptions (PullThroughCache (Some (RegistryMiddleware ''audit''
       (Some (Registry (Some (Driver ''filesystem''))
          [DisableDigestResumption, EnableRedirect, ManifestURLsAllowRegexp ''^$'',
           EnableValidateImageIndexImagesExist]))))) =
     Some [DisableDigestResumption, EnableRedirect, ManifestURLsAllowRegexp ''^$'',
           EnableValidateImageIndexImagesExist]"
  using proxy_disables_digest_resumption [OF NewApp_proxy] NewApp_proxy
  by (simp add: proxy_config_def proxy_built_def)

text \<open>
  C4. When the construction returns an application for a configuration in which validation
  is enabled (set, or not disabled) and the allow and the deny list of URLs are empty, the
  storage registry was created with options whose allow policy is the pattern \<^verbatim>\<open>^$\<close>.
  That pattern matches the empty string only, so the policy rejects every URL that is not
  empty and every manifest that contains such a URL.
\<close>

theorem empty_url_policy_denies_all:
  assumes "NewApp env config = Inr app"
      and "Validation_Enabled config \<or> \<not> Validation_Disabled config"
      and "Validation_Manifests_URLs_Allow config = []"
      and "Validation_Manifests_URLs_Deny config = []"
  shows "\<exists>reg options. registry app = Some reg \<and> registryOptions reg = Some options \<and>
           allow (manifestURLsOf options) = Some ''^$'' \<and>
           (\<forall>u. MatchString lib ''^$'' u \<longleftrightarrow> u = []) \<and>
           (\<forall>u. u \<noteq> [] \<longrightarrow> urlRejected lib (manifestURLsOf options) u) \<and>
           (\<forall>urls. (\<exists>u \<in> set urls. u \<noteq> []) \<longrightarrow>
              manifestRejected lib (manifestURLsOf options) urls)"
proof (rule NewApp_summary [OF assms(1)], goal_cases)
  case (1 d purgeConfig a0 a1 purger a2 a3 a6 options0 options' a7 options'' reg)
  note a2 = 1(7) and sec = 1(9) and a6 = 1(12) and v = 1(13) and reg = 1(16) and ro = 1(17)
  from sec a2 have c3: "Validation_Enabled (Config a3) = Validation_Enabled config"
      "Validation_Disabled (Config a3) = Validation_Disabled config"
      "Validation_Manifests_URLs_Allow (Config a3) = Validation_Manifests_URLs_Allow config"
      "Validation_Manifests_URLs_Deny (Config a3) = Validation_Manifests_URLs_Deny config"
    using configureSecret_frame [of env a2 a3] by (auto split: if_splits)
  from validation_empty_lists [OF v] c3 a6 assms(2-4)
  obtain post where post: "options'' = options' @ [ManifestURLsAllowRegexp ''^$''] @ post"
      and free: "\<forall>opt \<in> set post. \<forall>p. applyOption opt p = p"
    by auto
  from ro obtain options where o: "registryOptions reg = Some options"
      and shape: "options = options'' \<or>
                  (\<exists>provider. options = options'' @ [BlobDescriptorCacheProvider provider])"
    by auto
  have al: "allow (manifestURLsOf options) = Some ''^$''"
    using shape post fold_applyOption_id [OF free]
    by (auto simp: manifestURLsOf_def)
  have rej: "urlRejected lib (manifestURLsOf options) u" if "u \<noteq> []" for u
    using that al match_empty_pattern [of lib u] by (simp add: urlRejected_def)
  have "manifestRejected lib (manifestURLsOf options) urls" if "\<exists>u \<in> set urls. u \<noteq> []" for urls
    using that rej by (auto simp: manifestRejected_def list_ex_iff)
  with reg o al rej match_empty_pattern show ?case by blast
qed

theorem empty_url_policy_denies_all_witness:
  "NewApp example_env example_config = Inr example_built \<and>
   (Validation_Enabled example_config \<or> Validation_Disabled example_config = False) \<and>
   Validation_Manifests_URLs_Allow example_config = [] \<and>
   Validation_Manifests_URLs_Deny example_config = [] \<and>
   allow (manifestURLsOf [EnableRedirect, ManifestURLsAllowRegexp ''^$'',
            EnableValidateImageIndexImagesExist]) = Some ''^$'' \<and>
   manifestRejected (\<lambda>pattern s. False)
     (manifestURLsOf [EnableRedirect, ManifestURLsAllowRegexp ''^$'',
        EnableValidateImageIndexImagesExist])
     [''https://example.com/layer.tar'']"
proof -
  have e: "Validation_Enabled example_config \<or> \<not> Validation_Disabled example_config"
    and a: "Validation_Manifests_URLs_Allow example_config = []"
    and d: "Validation_Manifests_URLs_Deny example_config = []"
    by (simp_all add: example_config_def)
  from empty_url_policy_denies_all [OF NewApp_example e a d, of "\<lambda>pattern s. False"]
  obtain reg options where r: "registry example_built = Some reg"
      and o: "registryOptions reg = Some options"
      and al: "allow (manifestURLsOf options) = Some ''^$''"
      and rej: "\<forall>urls. (\<exists>u \<in> set urls. u \<noteq> []) \<longrightarrow>
                  manifestRejected (\<lambda>pattern s. False) (manifestURLsOf options) urls"
    by blast
  from r o have "options = [EnableRedirect, ManifestURLsAllowRegexp ''^$'',
            EnableValidateImageIndexImagesExist]"
    by (auto simp: example_built_def)
  with al rej [rule_format, of "[''https://example.com/layer.tar'']"] e a d NewApp_example
  show ?thesis by simp
qed

subsection \<open>The upload purger\<close>

lemma readonly_keeps_purgeConfig:
  assumes "(case map_of mc ''readonly'' of
                 None \<Rightarrow> Inr (purgeConfig, app)
               | Some (DMap readOnly') \<Rightarrow>
                   (case map_of readOnly' ''enabled'' of
                      None \<Rightarrow> Inr (purgeConfig, app)
                    | Some (DBool b) \<Rightarrow> Inr (purgeConfig, app\<lparr>readOnly := b\<rparr>)
                    | Some other \<Rightarrow>
                        Inl (Panic ''readonly's enabled config key must have a boolean value''))
               | Some other \<Rightarrow> Inl (Panic ''readonly config key must contain additional keys''))
           = Inr (purgeConfig', app')"
  shows "purgeConfig' = purgeConfig"
  using assms by (auto split: option.splits dyn.splits)

lemma maintenance_purgeConfig:
  assumes "NewApp_maintenance app = Inr (purgeConfig, app')"
  shows "(map_of (Storage (Config app)) ''maintenance'' = None \<longrightarrow>
            purgeConfig = uploadPurgeDefaultConfig) \<and>
         (\<forall>mc. map_of (Storage (Config app)) ''maintenance'' = Some mc \<longrightarrow>
            (map_of mc ''uploadpurging'' = None \<longrightarrow> purgeConfig = uploadPurgeDefaultConfig) \<and>
            (\<forall>m. map_of mc ''uploadpurging'' = Some (DMap m) \<longrightarrow> purgeConfig = m))"
proof (cases "map_of (Storage (Config app)) ''maintenance''")
  case None
  with assms show ?thesis by (simp add: NewApp_maintenance_def)
next
  case (Some mc)
  have "andThen
            (case map_of mc ''uploadpurging'' of
               None \<Rightarrow> Inr uploadPurgeDefaultConfig
             | Some (DMap m) \<Rightarrow> Inr m
             | Some other \<Rightarrow> Inl (Panic ''uploadpurging config key must contain additional keys''))
            (\<lambda>purgeConfig.
               case map_of mc ''readonly'' of
                 None \<Rightarrow> Inr (purgeConfig, app)
               | Some (DMap readOnly') \<Rightarrow>
                   (case map_of readOnly' ''enabled'' of
                      None \<Rightarrow> Inr (purgeConfig, app)
                    | Some (DBool b) \<Rightarrow> Inr (purgeConfig, app\<lparr>readOnly := b\<rparr>)
                    | Some other \<Rightarrow>
                        Inl (Panic ''readonly's enabled config key must have a boolean value''))
               | Some other \<Rightarrow> Inl (Panic ''readonly config key must contain additional keys''))
          = Inr (purgeConfig, app')"
    using assms Some by (simp add: NewApp_maintenance_def)
  then obtain pc where pc: "(case map_of mc ''uploadpurging'' of
               None \<Rightarrow> Inr uploadPurgeDefaultConfig
             | Some (DMap m) \<Rightarrow> Inr m
             | Some other \<Rightarrow> Inl (Panic ''uploadpurging config key must contain additional keys''))
            = Inr pc"
    and ro: "(case map_of mc ''readonly'' of
                 None \<Rightarrow> Inr (pc, app)
               | Some (DMap readOnly') \<Rightarrow>
                   (case map_of readOnly' ''enabled'' of
                      None \<Rightarrow> Inr (pc, app)
                    | Some (DBool b) \<Rightarrow> Inr (pc, app\<lparr>readOnly := b\<rparr>)
                    | Some other \<Rightarrow>
                        Inl (Panic ''readonly's enabled config key must have a boolean value''))
               | Some other \<Rightarrow> Inl (Panic ''readonly config key must contain additional keys''))
           = Inr (purgeConfig, app')"
    by (rule andThenE)
  have eq: "purgeConfig = pc" by (rule readonly_keeps_purgeConfig [OF ro])
  have "map_of mc ''uploadpurging'' = None \<longrightarrow> pc = uploadPurgeDefaultConfig"
    using pc by auto
  moreover have "\<forall>m. map_of mc ''uploadpurging'' = Some (DMap m) \<longrightarrow> pc = m"
    using pc by auto
  ultimately show ?thesis using Some eq by simp
qed

lemma int64_id: "- (2 ^ 63) \<le> x \<Longrightarrow> x < 2 ^ 63 \<Longrightarrow> int64 x = x"
  by (simp add: int64_def)

lemma jitter_bound:
  assumes "\<forall>n. rand_Int env MaxInt64 = Inr n \<longrightarrow> 0 \<le> n \<and> n < MaxInt64"
  shows "0 \<le> jitter env \<and> jitter env < 60 * Minute"
proof -
  define randInt where "randInt = (case rand_Int env MaxInt64 of Inl err \<Rightarrow> 30 | Inr n \<Rightarrow> n)"
  have r: "0 \<le> randInt" "randInt < 2 ^ 63"
    using assms by (auto simp: randInt_def MaxInt64_def split: sum.splits)
  then have i: "int64 randInt = randInt" by (simp add: int64_id)
  have m: "randInt smod 60 = randInt mod 60"
    using r by (simp add: signed_modulo_int_def sgn_if)
  have b: "0 \<le> randInt mod 60" "randInt mod 60 < 60" by simp_all
  then have "0 \<le> (randInt mod 60) * Minute" "(randInt mod 60) * Minute < 60 * Minute"
    by (simp_all add: Minute_def)
  moreover from this have "int64 ((randInt mod 60) * Minute) = (randInt mod 60) * Minute"
    by (intro int64_id) (simp_all add: Minute_def)
  ultimately show ?thesis
    by (simp add: jitter_def Let_def randInt_def [symmetric] i m)
qed

lemma startUploadPurger_result:
  assumes "startUploadPurger env drv config = Inr r"
  shows "(r = None \<longleftrightarrow> map_of config ''enabled'' = Some (DBool False)) \<and>
         (\<forall>p. r = Some p \<longrightarrow>
            (\<exists>ageStr intervalStr.
               map_of config ''age'' = Some (DString ageStr) \<and>
               ParseDuration env ageStr = Inr (purgeAgeDuration p) \<and>
               map_of config ''interval'' = Some (DString intervalStr) \<and>
               ParseDuration env intervalStr = Inr (intervalDuration p) \<and>
               map_of config ''dryrun'' = Some (DBool (dryRunBool p))))"
proof (cases "map_of config ''enabled'' = Some (DBool False)")
  case True
  with assms show ?thesis by (simp add: startUploadPurger_def)
next
  case False
  with assms obtain purgeAge interval dryRun
    where age: "(case map_of config ''age'' of
             Some (DString ageStr) \<Rightarrow>
               (case ParseDuration env ageStr of
                  Inl err \<Rightarrow> Inl (badPurgeUploadConfig (''Cannot parse duration: '' @ err))
                | Inr d \<Rightarrow> Inr d)
           | Some other \<Rightarrow> Inl (badPurgeUploadConfig ''age is not a string'')
           | None \<Rightarrow> Inl (badPurgeUploadConfig ''age missing'')) = Inr purgeAge"
      and interval: "(case map_of config ''interval'' of
             Some (DString intervalStr) \<Rightarrow>
               (case ParseDuration env intervalStr of
                  Inl err \<Rightarrow> Inl (badPurgeUploadConfig (''Cannot parse interval: '' @ err))
                | Inr d \<Rightarrow> Inr d)
           | Some other \<Rightarrow> Inl (badPurgeUploadConfig ''interval is not a string'')
           | None \<Rightarrow> Inl (badPurgeUploadConfig ''interval missing'')) = Inr interval"
      and dry: "(case map_of config ''dryrun'' of
             Some (DBool b) \<Rightarrow> Inr b
           | Some other \<Rightarrow> Inl (badPurgeUploadConfig ''cannot parse dryrun'')
           | None \<Rightarrow> Inl (badPurgeUploadConfig ''dryrun missing'')) = Inr dryRun"
      and r: "r = Some \<lparr>storageDriver = drv, purgeAgeDuration = purgeAge,
                        intervalDuration = interval, dryRunBool = dryRun\<rparr>"
    unfolding startUploadPurger_def by (auto elim!: andThenE)
  from age obtain ageStr where "map_of config ''age'' = Some (DString ageStr)"
      "ParseDuration env ageStr = Inr purgeAge"
    by (auto split: option.splits dyn.splits sum.splits)
  moreover from interval obtain intervalStr
    where "map_of config ''interval'' = Some (DString intervalStr)"
      "ParseDuration env intervalStr = Inr interval"
    by (auto split: option.splits dyn.splits sum.splits)
  moreover from dry have "map_of config ''dryrun'' = Some (DBool dryRun)"
    by (auto split: option.splits dyn.splits)
  ultimately show ?thesis using r False by auto
qed

lemma purger_run_shape:
  "purger_run env p n =
     Sleep (jitter env) #
       concat (replicate n
         [PurgeUploads (purgeAgeDuration p) (\<not> dryRunBool p), Sleep (intervalDuration p)])"
proof (induction n)
  case 0
  show ?case by simp
next
  case (Suc n)
  have "replicate (Suc n) xs = replicate n xs @ [xs]" for xs :: "purger_action list"
    by (simp add: replicate_append_same)
  with Suc show ?case by simp
qed

text \<open>
  C7. When the construction returns an application: without an \<^verbatim>\<open>uploadpurging\<close> section
  the purger is started with the age parsed from \<^verbatim>\<open>168h\<close>, the interval parsed from
  \<^verbatim>\<open>24h\<close> and no dry run; with a section, it is started unless the section sets
  \<^verbatim>\<open>enabled\<close> to the boolean false, with the age, interval and dry run of the section.
  The goroutine first sleeps for the jitter, which is at least 0 and less than 60 minutes
  when \<^verbatim>\<open>rand.Int\<close> returns a number in its range (and is 30 minutes when it fails),
  and then, round after round, purges the uploads older than the age and sleeps for the
  interval.
\<close>

theorem upload_purger_started:
  assumes "NewApp env config = Inr app"
  shows "((map_of (Storage config) ''maintenance'' = None \<or>
           (\<exists>mc. map_of (Storage config) ''maintenance'' = Some mc \<and>
                 map_of mc ''uploadpurging'' = None)) \<longrightarrow>
          (\<exists>p. uploadPurging app = Some p \<and>
               ParseDuration env ''168h'' = Inr (purgeAgeDuration p) \<and>
               ParseDuration env ''24h'' = Inr (intervalDuration p) \<and>
               dryRunBool p = False)) \<and>
         (\<forall>mc m. map_of (Storage config) ''maintenance'' = Some mc \<and>
                 map_of mc ''uploadpurging'' = Some (DMap m) \<longrightarrow>
            (uploadPurging app = None \<longleftrightarrow> map_of m ''enabled'' = Some (DBool False)) \<and>
            (\<forall>p. uploadPurging app = Some p \<longrightarrow>
               (\<exists>ageStr intervalStr.
                  map_of m ''age'' = Some (DString ageStr) \<and>
                  ParseDuration env ageStr = Inr (purgeAgeDuration p) \<and>
                  map_of m ''interval'' = Some (DString intervalStr) \<and>
                  ParseDuration env intervalStr = Inr (intervalDuration p) \<and>
                  map_of m ''dryrun'' = Some (DBool (dryRunBool p))))) \<and>
         ((\<forall>n. rand_Int env MaxInt64 = Inr n \<longrightarrow> 0 \<le> n \<and> n < MaxInt64) \<longrightarrow>
            0 \<le> jitter env \<and> jitter env < 60 * Minute) \<and>
         (\<forall>p n. purger_run env p n =
            Sleep (jitter env) #
              concat (replicate n
                [PurgeUploads (purgeAgeDuration p) (\<not> dryRunBool p),
                 Sleep (intervalDuration p)]))"
proof (rule NewApp_summary [OF assms], goal_cases)
  case (1 d purgeConfig a0 a1 purger a2 a3 a6 options options' a7 options'' reg)
  note a0 = 1(2) and mt = 1(4) and st = 1(5) and up = 1(6)
  note pc = maintenance_purgeConfig [OF mt, unfolded a0]
  note res = startUploadPurger_result [OF st, unfolded up [symmetric]]
  have default: "\<exists>p. uploadPurging app = Some p \<and>
               ParseDuration env ''168h'' = Inr (purgeAgeDuration p) \<and>
               ParseDuration env ''24h'' = Inr (intervalDuration p) \<and>
               dryRunBool p = False"
    if "purgeConfig = uploadPurgeDefaultConfig"
  proof -
    from res that have "uploadPurging app \<noteq> None"
      by (simp add: uploadPurgeDefaultConfig_def)
    then obtain p where p: "uploadPurging app = Some p" by auto
    with res that show ?thesis by (auto simp: uploadPurgeDefaultConfig_def)
  qed
  have A: "(map_of (Storage config) ''maintenance'' = None \<or>
           (\<exists>mc. map_of (Storage config) ''maintenance'' = Some mc \<and>
                 map_of mc ''uploadpurging'' = None)) \<longrightarrow>
          (\<exists>p. uploadPurging app = Some p \<and>
               ParseDuration env ''168h'' = Inr (purgeAgeDuration p) \<and>
               ParseDuration env ''24h'' = Inr (intervalDuration p) \<and>
               dryRunBool p = False)"
    using pc default by blast
  have B: "(uploadPurging app = None \<longleftrightarrow> map_of m ''enabled'' = Some (DBool False)) \<and>
            (\<forall>p. uploadPurging app = Some p \<longrightarrow>
               (\<exists>ageStr intervalStr.
                  map_of m ''age'' = Some (DString ageStr) \<and>
                  ParseDuration env ageStr = Inr (purgeAgeDuration p) \<and>
                  map_of m ''interval'' = Some (DString intervalStr) \<and>
                  ParseDuration env intervalStr = Inr (intervalDuration p) \<and>
                  map_of m ''dryrun'' = Some (DBool (dryRunBool p))))"
    if "map_of (Storage config) ''maintenance'' = Some mc"
      and "map_of mc ''uploadpurging'' = Some (DMap m)" for mc m
  proof -
    from pc that have "purgeConfig = m" by blast
    with res show ?thesis by simp
  qed
  from A B jitter_bound [of env] purger_run_shape [of env] show ?case by blast
qed


lemma jitter_example: "jitter example_env = 7 * Minute"
  by (simp add: jitter_def example_env_def int64_def Minute_def MaxInt64_def
      signed_modulo_int_def Let_def)

theorem upload_purger_started_witness:
  "NewApp example_env example_config = Inr example_built \<and>
   map_of (Storage example_config) ''maintenance'' = None \<and>
   uploadPurging example_built = Some example_purger \<and>
   ParseDuration example_env ''168h'' = Inr (purgeAgeDuration example_purger) \<and>
   ParseDuration example_env ''24h'' = Inr (intervalDuration example_purger) \<and>
   dryRunBool example_purger = False \<and>
   NewApp example_env purging_off_config = Inr purging_off_built \<and>
   map_of (Storage purging_off_config) ''maintenance'' =
     Some [(''uploadpurging'', DMap [(''enabled'', DBool False)])] \<and>
   uploadPurging purging_off_built = None \<and>
   rand_Int example_env MaxInt64 = Inr 1234567 \<and>
   jitter example_env = 7 * Minute \<and> 0 \<le> jitter example_env \<and>
   jitter example_env < 60 * Minute \<and>
   purger_run example_env example_purger 2 =
     [Sleep (7 * Minute),
      PurgeUploads (168 * 60 * Minute) True, Sleep (24 * 60 * Minute),
      PurgeUploads (168 * 60 * Minute) True, Sleep (24 * 60 * Minute)]"
proof -
  have r: "\<forall>n. rand_Int example_env MaxInt64 = Inr n \<longrightarrow> 0 \<le> n \<and> n < MaxInt64"
    by (simp add: example_env_def MaxInt64_def)
  have two: "replicate 2 x = [x, x]" for x :: "purger_action list"
    by (simp add: numeral_2_eq_2)
  from upload_purger_started [OF NewApp_example] upload_purger_started [OF NewApp_purging_off] r NewApp_example
    NewApp_purging_off jitter_example
  show ?thesis
    by (simp add: example_config_def purging_off_config_def example_built_def
        purging_off_built_def example_purger_def example_env_def two)
qed

end
